theory Spec2Isabelle
  imports Main "HOL-Library.Sublist"
begin

section \<open>JavaScript values used by the storage adapters\<close>

text \<open>
  A thrown JavaScript error object: its constructor name, its message and its
  \<^verbatim>\<open>statusCode\<close> property (\<open>None\<close> when the property is undefined, as on every
  error built with \<^verbatim>\<open>new Error(...)\<close>).
\<close>

datatype js_error = JsError (errName: string) (message: string) (statusCode: "int option")

definition new_Error :: "string \<Rightarrow> js_error" where
  "new_Error msg = JsError ''Error'' msg None"

definition TypeError :: "string \<Rightarrow> js_error" where
  "TypeError msg = JsError ''TypeError'' msg None"

text \<open>
  An optional string argument or environment variable: \<open>None\<close> is \<^verbatim>\<open>undefined\<close>.
  \<open>truthy\<close> is the test of \<^verbatim>\<open>x ? a : b\<close>, \<^verbatim>\<open>!x\<close> and \<^verbatim>\<open>x && y\<close>;
  \<open>interpolate\<close> is what a template literal \<^verbatim>\<open>${x}\<close> inserts;
  \<open>orDefault\<close> is a default parameter value, used when the argument is undefined.
\<close>

definition truthy :: "string option \<Rightarrow> bool" where
  "truthy v = (case v of None \<Rightarrow> False | Some s \<Rightarrow> s \<noteq> [])"

definition interpolate :: "string option \<Rightarrow> string" where
  "interpolate v = (case v of None \<Rightarrow> ''undefined'' | Some s \<Rightarrow> s)"

definition orDefault :: "'a option \<Rightarrow> 'a \<Rightarrow> 'a" where
  "orDefault v d = (case v of None \<Rightarrow> d | Some x \<Rightarrow> x)"

subsection \<open>String.prototype.split, indexing and String.prototype.includes\<close>

function split_from :: "string \<Rightarrow> string \<Rightarrow> string \<Rightarrow> string list" where
  "split_from sep acc [] = [rev acc]"
| "split_from sep acc (c # cs) =
     (if sep \<noteq> [] \<and> prefix sep (c # cs)
      then rev acc # split_from sep [] (drop (length sep) (c # cs))
      else split_from sep (c # acc) cs)"
  by pat_completeness auto
termination
  by (relation "measure (\<lambda>(sep, acc, s). length s)") (auto simp: neq_Nil_conv)

definition js_split :: "string \<Rightarrow> string \<Rightarrow> string list" where
  "js_split s sep = (if sep = [] then map (\<lambda>c. [c]) s else split_from sep [] s)"

text \<open>\<^verbatim>\<open>xs[i]\<close>: \<open>None\<close> is the \<^verbatim>\<open>undefined\<close> read out of range.\<close>

definition at_index :: "'a list \<Rightarrow> nat \<Rightarrow> 'a option" where
  "at_index xs i = (if i < length xs then Some (xs ! i) else None)"

definition js_includes :: "string \<Rightarrow> string \<Rightarrow> bool" where
  "js_includes s needle = sublist needle s"

subsection \<open>path.basename (POSIX)\<close>

text \<open>
  Node's \<^verbatim>\<open>path.posix.basename\<close> with no suffix argument scans from the end: trailing
  slashes are skipped, then the characters back to the previous slash are returned.
\<close>

definition basename :: "string \<Rightarrow> string" where
  "basename p = rev (takeWhile (\<lambda>c. c \<noteq> CHR ''/'') (dropWhile (\<lambda>c. c = CHR ''/'') (rev p)))"

section \<open>JavaScript Date arithmetic\<close>

text \<open>
  Time values are milliseconds since the epoch; \<open>None\<close> is the NaN time value of an
  invalid Date. The functions below are the abstract operations of ECMA-262 that
  \<^verbatim>\<open>getMinutes\<close> and \<^verbatim>\<open>setMinutes\<close> are defined by.
\<close>

definition msPerMinute :: int where "msPerMinute = 60000"
definition msPerHour :: int where "msPerHour = 3600000"
definition msPerDay :: int where "msPerDay = 86400000"

definition Day :: "int \<Rightarrow> int" where "Day t = t div msPerDay"
definition HourFromTime :: "int \<Rightarrow> int" where "HourFromTime t = (t div msPerHour) mod 24"
definition MinFromTime :: "int \<Rightarrow> int" where "MinFromTime t = (t div msPerMinute) mod 60"
definition SecFromTime :: "int \<Rightarrow> int" where "SecFromTime t = (t div 1000) mod 60"
definition msFromTime :: "int \<Rightarrow> int" where "msFromTime t = t mod 1000"

definition MakeTime :: "int \<Rightarrow> int \<Rightarrow> int \<Rightarrow> int \<Rightarrow> int" where
  "MakeTime h m s ms = h * msPerHour + m * msPerMinute + s * 1000 + ms"

definition MakeDate :: "int \<Rightarrow> int \<Rightarrow> int" where
  "MakeDate day time = day * msPerDay + time"

definition TimeClip :: "int \<Rightarrow> int option" where
  "TimeClip t = (if \<bar>t\<bar> > 8640000000000000 then None else Some t)"

text \<open>
  The host's time zone, as far as one run can see it: an offset from UTC (in ms) in force
  before an instant \<open>transition\<close> and another one from that instant on. A zone without
  daylight saving (UTC itself) has both offsets equal.

  \<open>LocalTime\<close> adds the offset in force at the instant. \<open>UTC\<close> maps a local time back:
  when the local time exists under the offset before the transition that instant is
  taken (for a repeated local time it is the earlier of the two), otherwise the instant
  under the offset after the transition, and a skipped local time is read with the
  offset before the transition.
\<close>

record timeZone =
  offsetBefore :: int
  offsetAfter :: int
  transition :: int

definition LocalTime :: "timeZone \<Rightarrow> int \<Rightarrow> int" where
  "LocalTime z t = t + (if t < transition z then offsetBefore z else offsetAfter z)"

definition UTC :: "timeZone \<Rightarrow> int \<Rightarrow> int" where
  "UTC z t =
     (if t - offsetBefore z < transition z then t - offsetBefore z
      else if transition z \<le> t - offsetAfter z then t - offsetAfter z
      else t - offsetBefore z)"

definition getMinutes :: "timeZone \<Rightarrow> int \<Rightarrow> int" where
  "getMinutes z tv = MinFromTime (LocalTime z tv)"

definition setMinutes :: "timeZone \<Rightarrow> int \<Rightarrow> int \<Rightarrow> int option" where
  "setMinutes z tv m =
     (let t = LocalTime z tv;
          date = MakeDate (Day t) (MakeTime (HourFromTime t) m (SecFromTime t) (msFromTime t))
      in TimeClip (UTC z date))"

section \<open>The storage SDK's objects\<close>

text \<open>
  \<^verbatim>\<open>new BlobSASPermissions()\<close> has every permission flag false; the adapters then set one
  flag. The flags are those of the SDK's class.
\<close>

record BlobSASPermissions =
  read :: bool
  add :: bool
  create :: bool
  "write" :: bool
  delete :: bool
  deleteVersion :: bool
  tag :: bool
  move :: bool
  execute :: bool
  setImmutabilityPolicy :: bool
  permanentDelete :: bool

definition new_BlobSASPermissions :: BlobSASPermissions where
  "new_BlobSASPermissions =
     \<lparr>read = False, add = False, create = False, write = False, delete = False,
      deleteVersion = False, tag = False, move = False, execute = False,
      setImmutabilityPolicy = False, permanentDelete = False\<rparr>"

record StorageSharedKeyCredential =
  accountName :: "string option"
  accountKey :: "string option"

text \<open>The object literal \<^verbatim>\<open>{ containerName, permissions, expiresOn }\<close> that is signed.\<close>

record blobSasModel =
  containerName :: string
  permissions :: BlobSASPermissions
  expiresOn :: "int option"

text \<open>
  The SDK's signing primitive is not interpreted: its result is the pair of its two
  arguments, so two grants are equal exactly when the same values were signed with the
  same credential.
\<close>

datatype SASQueryParameters =
  generateBlobSASQueryParameters (signedValues: blobSasModel) (signedWith: StorageSharedKeyCredential)

datatype credential = SharedKey StorageSharedKeyCredential | WorkloadIdentityCredential

record BlobServiceClient =
  serviceUrl :: string
  serviceCredential :: credential

record ContainerClient =
  serviceClient :: BlobServiceClient
  container :: string

definition getContainerClient :: "BlobServiceClient \<Rightarrow> string \<Rightarrow> ContainerClient" where
  "getContainerClient s n = \<lparr>serviceClient = s, container = n\<rparr>"

record BlockBlobClient =
  containerOf :: ContainerClient
  blobName :: string

text \<open>
  A signed URL \<^verbatim>\<open>`${blockBlobClient.url}?${sasQueryParams}`\<close>, kept as the two parts
  that the template literal joins: the blob the URL addresses and the grant appended.
\<close>

record signedUrl =
  blobUrl :: BlockBlobClient
  sasQuery :: SASQueryParameters

type_synonym buffer = "nat list"

section \<open>Environment, module state and effects\<close>

text \<open>
  Everything outside the module: the three environment variables read at load time, the
  host's time zone and clock (the \<open>n\<close>-th reading of \<^verbatim>\<open>new Date()\<close>), the
  \<^verbatim>\<open>mime\<close> table, and the answer of each collaborator (remote fetch, HTTP PUT to a signed
  URL, the blob client's calls, the file system). A collaborator answers \<open>None\<close> or
  \<open>Inr\<close> when its promise resolves and with an error when it rejects.
\<close>

record env =
  AZURE_PRIVATE_STORAGE_ACCOUNT_NAME :: "string option"
  AZURE_PRIVATE_STORAGE_ACCOUNT_KEY :: "string option"
  process_env_AZURE_PRIVATE_CONTAINER_NAME :: "string option"
  zone :: timeZone
  clock :: "nat \<Rightarrow> int"
  mimeGetType :: "string \<Rightarrow> string option"
  fetchBuffer :: "string \<Rightarrow> js_error + buffer"
  httpPut :: "signedUrl \<Rightarrow> buffer \<Rightarrow> js_error option"
  createIfNotExists :: "ContainerClient \<Rightarrow> js_error option"
  blobUpload :: "BlockBlobClient \<Rightarrow> buffer \<Rightarrow> js_error option"
  blobUploadFile :: "BlockBlobClient \<Rightarrow> string \<Rightarrow> js_error option"
  blobDelete :: "BlockBlobClient \<Rightarrow> js_error option"
  blobDownload :: "BlockBlobClient \<Rightarrow> js_error + buffer"
  statSize :: "string \<Rightarrow> js_error + nat"
  readFile :: "string \<Rightarrow> js_error + buffer"
  newWorkloadIdentityCredential :: "js_error option"

definition defaultBasePath :: string where
  "defaultBasePath = ''images''"

definition AZURE_PRIVATE_CONTAINER_NAME :: "env \<Rightarrow> string" where
  "AZURE_PRIVATE_CONTAINER_NAME e = orDefault (process_env_AZURE_PRIVATE_CONTAINER_NAME e) ''files''"

text \<open>Every call that leaves the process is recorded, in order.\<close>

datatype event =
    Fetch string
  | HttpPut signedUrl string nat buffer
  | CreateIfNotExists ContainerClient
  | Upload BlockBlobClient buffer nat string
  | UploadFile BlockBlobClient string string
  | Delete BlockBlobClient
  | Download BlockBlobClient
  | Stat string
  | ReadFile string

text \<open>
  The module's two singletons, the number of clock readings made so far and the calls
  made so far.
\<close>

record world =
  blobServiceClient :: "BlobServiceClient option"
  containerClient :: "ContainerClient option"
  ticks :: nat
  trace :: "event list"

definition initial_world :: world where
  "initial_world = \<lparr>blobServiceClient = None, containerClient = None, ticks = 0, trace = []\<rparr>"

type_synonym 'a io = "world \<Rightarrow> (js_error + 'a) \<times> world"

definition ret :: "'a \<Rightarrow> 'a io" where
  "ret x = (\<lambda>w. (Inr x, w))"

definition throw :: "js_error \<Rightarrow> 'a io" where
  "throw err = (\<lambda>w. (Inl err, w))"

definition bind :: "'a io \<Rightarrow> ('a \<Rightarrow> 'b io) \<Rightarrow> 'b io" where
  "bind m f = (\<lambda>w. case m w of (Inl err, w') \<Rightarrow> (Inl err, w') | (Inr x, w') \<Rightarrow> f x w')"

definition catch :: "'a io \<Rightarrow> (js_error \<Rightarrow> 'a io) \<Rightarrow> 'a io" where
  "catch m h = (\<lambda>w. case m w of (Inl err, w') \<Rightarrow> h err w' | (Inr x, w') \<Rightarrow> (Inr x, w'))"

definition perform :: "event \<Rightarrow> js_error + 'a \<Rightarrow> 'a io" where
  "perform ev answer = (\<lambda>w. (answer, w\<lparr>trace := trace w @ [ev]\<rparr>))"

definition settled :: "js_error option \<Rightarrow> js_error + unit" where
  "settled r = (case r of None \<Rightarrow> Inr () | Some err \<Rightarrow> Inl err)"

definition new_Date :: "env \<Rightarrow> int io" where
  "new_Date e = (\<lambda>w. (Inr (clock e (ticks w)), w\<lparr>ticks := Suc (ticks w)\<rparr>))"

text \<open>\<^verbatim>\<open>new Date(v)\<close> of a time value clips it again.\<close>

definition new_Date_of :: "int option \<Rightarrow> int option" where
  "new_Date_of v = (case v of None \<Rightarrow> None | Some t \<Rightarrow> TimeClip t)"

text \<open>\<^verbatim>\<open>mime.getType(name) || 'application/octet-stream'\<close>\<close>

definition contentTypeOf :: "env \<Rightarrow> string \<Rightarrow> string" where
  "contentTypeOf e name =
     (if truthy (mimeGetType e name) then interpolate (mimeGetType e name)
      else ''application/octet-stream'')"

text \<open>
  A method call on the \<^verbatim>\<open>containerClient\<close> singleton throws a TypeError while the
  singleton is still \<^verbatim>\<open>null\<close>.
\<close>

definition theContainerClient :: "ContainerClient io" where
  "theContainerClient = (\<lambda>w. case containerClient w of
       None \<Rightarrow> (Inl (TypeError ''Cannot read properties of null''), w)
     | Some c \<Rightarrow> (Inr c, w))"

definition getBlockBlobClient :: "string \<Rightarrow> BlockBlobClient io" where
  "getBlockBlobClient name =
     bind theContainerClient (\<lambda>c. ret \<lparr>containerOf = c, blobName = name\<rparr>)"

definition containerClient_createIfNotExists :: "env \<Rightarrow> unit io" where
  "containerClient_createIfNotExists e =
     bind theContainerClient (\<lambda>c. perform (CreateIfNotExists c) (settled (createIfNotExists e c)))"

section \<open>The signed-URL backend (AzureBlobPrivate/crud.js)\<close>

definition initializeAzureBlobPrivateService :: "env \<Rightarrow> BlobServiceClient io" where
  "initializeAzureBlobPrivateService e = (\<lambda>w.
     case blobServiceClient w of
       Some s \<Rightarrow> (Inr s, w)
     | None \<Rightarrow>
         if truthy (AZURE_PRIVATE_STORAGE_ACCOUNT_NAME e)
            \<and> truthy (AZURE_PRIVATE_STORAGE_ACCOUNT_KEY e)
            \<and> truthy (Some (AZURE_PRIVATE_CONTAINER_NAME e))
         then
           let url = ''https://'' @ interpolate (AZURE_PRIVATE_STORAGE_ACCOUNT_NAME e)
                       @ ''.blob.core.windows.net'';
               cred = \<lparr>accountName = AZURE_PRIVATE_STORAGE_ACCOUNT_NAME e,
                       accountKey = AZURE_PRIVATE_STORAGE_ACCOUNT_KEY e\<rparr>;
               s = \<lparr>serviceUrl = url, serviceCredential = SharedKey cred\<rparr>
           in (Inr s, w\<lparr>blobServiceClient := Some s,
                         containerClient := Some (getContainerClient s (AZURE_PRIVATE_CONTAINER_NAME e))\<rparr>)
         else (Inl (new_Error ''Azure Blob Private: Missing required configuration. Provide AZURE_STORAGE_ACCOUNT_NAME, AZURE_STORAGE_ACCOUNT_KEY and AZURE_PRIVATE_CONTAINER_NAME''), w))"

text \<open>
  The expiry both minting functions compute:
  \<^verbatim>\<open>new Date(currentDateTime.setMinutes(currentDateTime.getMinutes() + duration))\<close>.
\<close>

definition expiryDateTime :: "timeZone \<Rightarrow> int \<Rightarrow> int \<Rightarrow> int option" where
  "expiryDateTime z currentDateTime dur =
     new_Date_of (setMinutes z currentDateTime (getMinutes z currentDateTime + dur))"

definition createSASReadString ::
  "env \<Rightarrow> string option \<Rightarrow> string option \<Rightarrow> string \<Rightarrow> int option \<Rightarrow> SASQueryParameters io" where
  "createSASReadString e key acct cName duration =
     (let perms = new_BlobSASPermissions\<lparr>read := True\<rparr>
      in bind (new_Date e) (\<lambda>currentDateTime.
           let model = \<lparr>containerName = cName, permissions = perms,
                         expiresOn = expiryDateTime (zone e) currentDateTime (orDefault duration 5)\<rparr>;
               cred = \<lparr>accountName = acct, accountKey = key\<rparr>
           in ret (generateBlobSASQueryParameters model cred)))"

definition createSASWriteString ::
  "env \<Rightarrow> string \<Rightarrow> string option \<Rightarrow> string option \<Rightarrow> string \<Rightarrow> int option \<Rightarrow> signedUrl io" where
  "createSASWriteString e bName key acct cName duration =
     (let perms = new_BlobSASPermissions\<lparr>write := True\<rparr>
      in bind (new_Date e) (\<lambda>currentDateTime.
           let model = \<lparr>containerName = cName, permissions = perms,
                         expiresOn = expiryDateTime (zone e) currentDateTime (orDefault duration 5)\<rparr>;
               cred = \<lparr>accountName = acct, accountKey = key\<rparr>;
               sasQueryParams = generateBlobSASQueryParameters model cred
           in bind (getBlockBlobClient bName) (\<lambda>tempBlockBlobClient.
                ret \<lparr>blobUrl = tempBlockBlobClient, sasQuery = sasQueryParams\<rparr>)))"

definition getSignedDownloadUrl ::
  "env \<Rightarrow> string \<Rightarrow> string option \<Rightarrow> string option \<Rightarrow> string \<Rightarrow> int option \<Rightarrow> signedUrl io" where
  "getSignedDownloadUrl e bName key acct cName duration =
     bind (getBlockBlobClient bName) (\<lambda>blockBlobClient.
     bind (createSASReadString e key acct cName duration) (\<lambda>sasQueryParams.
       ret \<lparr>blobUrl = blockBlobClient, sasQuery = sasQueryParams\<rparr>))"

definition uploadFileToSignedUrl :: "env \<Rightarrow> signedUrl \<Rightarrow> string \<Rightarrow> unit io" where
  "uploadFileToSignedUrl e url filePath =
     bind (perform (Stat filePath) (statSize e filePath)) (\<lambda>size.
       let contentType = contentTypeOf e filePath
       in bind (perform (ReadFile filePath) (readFile e filePath)) (\<lambda>body.
            perform (HttpPut url contentType size body) (settled (httpPut e url body))))"

definition uploadBufferToSignedUrl :: "env \<Rightarrow> signedUrl \<Rightarrow> buffer \<Rightarrow> string option \<Rightarrow> unit io" where
  "uploadBufferToSignedUrl e url buf contentType =
     perform (HttpPut url (orDefault contentType ''application/octet-stream'') (length buf) buf)
       (settled (httpPut e url buf))"

definition saveBufferToAzureBlobPrivate ::
  "env \<Rightarrow> string option \<Rightarrow> buffer \<Rightarrow> string \<Rightarrow> string option \<Rightarrow> string option \<Rightarrow> signedUrl io" where
  "saveBufferToAzureBlobPrivate e userId buf fileName basePath cNameArg =
     (let cName = orDefault cNameArg (AZURE_PRIVATE_CONTAINER_NAME e)
      in catch
        (bind (initializeAzureBlobPrivateService e) (\<lambda>_.
         bind (containerClient_createIfNotExists e) (\<lambda>_.
           let blobPath = orDefault basePath defaultBasePath @ ''/'' @ interpolate userId
                            @ ''/'' @ fileName;
               contentType = contentTypeOf e fileName
           in bind (createSASWriteString e blobPath (AZURE_PRIVATE_STORAGE_ACCOUNT_KEY e)
                      (AZURE_PRIVATE_STORAGE_ACCOUNT_NAME e) cName None) (\<lambda>uploadUrl.
              bind (uploadBufferToSignedUrl e uploadUrl buf (Some contentType)) (\<lambda>_.
                getSignedDownloadUrl e blobPath (AZURE_PRIVATE_STORAGE_ACCOUNT_KEY e)
                  (AZURE_PRIVATE_STORAGE_ACCOUNT_NAME e) cName None)))))
        (\<lambda>error. throw error))"

definition saveURLToAzureBlobPrivate ::
  "env \<Rightarrow> string option \<Rightarrow> string \<Rightarrow> string \<Rightarrow> string option \<Rightarrow> string option \<Rightarrow> signedUrl io" where
  "saveURLToAzureBlobPrivate e userId URL fileName basePath cNameArg =
     (let basePath' = orDefault basePath defaultBasePath;
          cName = orDefault cNameArg (AZURE_PRIVATE_CONTAINER_NAME e)
      in catch
        (bind (perform (Fetch URL) (fetchBuffer e URL)) (\<lambda>buf.
           saveBufferToAzureBlobPrivate e userId buf fileName (Some basePath') (Some cName)))
        (\<lambda>error. throw error))"

definition getAzureBlobPrivateURL ::
  "env \<Rightarrow> string \<Rightarrow> string option \<Rightarrow> string option \<Rightarrow> string option \<Rightarrow> signedUrl io" where
  "getAzureBlobPrivateURL e fileName basePath userId cNameArg =
     (let cName = orDefault cNameArg (AZURE_PRIVATE_CONTAINER_NAME e)
      in catch
        (bind (initializeAzureBlobPrivateService e) (\<lambda>_.
           let blobPath =
                 (if truthy userId
                  then orDefault basePath defaultBasePath @ ''/'' @ interpolate userId
                         @ ''/'' @ fileName
                  else orDefault basePath defaultBasePath @ ''/'' @ fileName)
           in getSignedDownloadUrl e blobPath (AZURE_PRIVATE_STORAGE_ACCOUNT_KEY e)
                (AZURE_PRIVATE_STORAGE_ACCOUNT_NAME e) cName None))
        (\<lambda>error. throw error))"

text \<open>
  \<^verbatim>\<open>file.filepath.split(`${AZURE_PRIVATE_CONTAINER_NAME}/`)[1]\<close>; calling
  \<^verbatim>\<open>includes\<close> on the \<^verbatim>\<open>undefined\<close> of a missing element throws a TypeError.
\<close>

definition extractBlobPath :: "env \<Rightarrow> string \<Rightarrow> string option" where
  "extractBlobPath e file_filepath =
     at_index (js_split file_filepath (AZURE_PRIVATE_CONTAINER_NAME e @ ''/'')) 1"

definition deleteFileFromAzureBlobPrivate :: "env \<Rightarrow> string \<Rightarrow> string \<Rightarrow> unit io" where
  "deleteFileFromAzureBlobPrivate e req_user_id file_filepath =
     catch
       (bind (initializeAzureBlobPrivateService e) (\<lambda>_.
          case extractBlobPath e file_filepath of
            None \<Rightarrow> throw (TypeError ''Cannot read properties of undefined (reading 'includes')'')
          | Some blobPath \<Rightarrow>
              if \<not> js_includes blobPath req_user_id
              then throw (new_Error ''User ID not found in blob path'')
              else bind (getBlockBlobClient blobPath) (\<lambda>blockBlobClient.
                     perform (Delete blockBlobClient) (settled (blobDelete e blockBlobClient)))))
       (\<lambda>error. if statusCode error = Some 404 then ret () else throw error)"

text \<open>The returned object \<^verbatim>\<open>{ filepath, bytes }\<close>; the URL is signed here and a string in the identity-based backend.\<close>

record 'u uploadResult =
  filepath :: 'u
  bytes :: nat

definition uploadFileToAzureBlobPrivate ::
  "env \<Rightarrow> string \<Rightarrow> string \<Rightarrow> string \<Rightarrow> string option \<Rightarrow> string option \<Rightarrow> signedUrl uploadResult io" where
  "uploadFileToAzureBlobPrivate e req_user_id file_path file_id basePath cNameArg =
     (let cName = orDefault cNameArg (AZURE_PRIVATE_CONTAINER_NAME e)
      in catch
        (bind (initializeAzureBlobPrivateService e) (\<lambda>_.
           let inputFilePath = file_path
           in bind (perform (Stat inputFilePath) (statSize e inputFilePath)) (\<lambda>stats_size.
             let userId = req_user_id;
                 fileName = file_id @ ''__'' @ basename inputFilePath;
                 blobPath = orDefault basePath defaultBasePath @ ''/'' @ userId @ ''/'' @ fileName
             in bind (containerClient_createIfNotExists e) (\<lambda>_.
                bind (createSASWriteString e blobPath (AZURE_PRIVATE_STORAGE_ACCOUNT_KEY e)
                        (AZURE_PRIVATE_STORAGE_ACCOUNT_NAME e) cName None) (\<lambda>uploadUrl.
                bind (uploadFileToSignedUrl e uploadUrl inputFilePath) (\<lambda>_.
                bind (getSignedDownloadUrl e blobPath (AZURE_PRIVATE_STORAGE_ACCOUNT_KEY e)
                        (AZURE_PRIVATE_STORAGE_ACCOUNT_NAME e) cName None) (\<lambda>downloadUrl.
                  ret \<lparr>filepath = downloadUrl, bytes = stats_size\<rparr>)))))))
        (\<lambda>error. throw error))"

section \<open>The identity-based backend (the second crud.js, functions suffixed \<open>_wi\<close>)\<close>

definition initializeAzureBlobPrivateService_wi :: "env \<Rightarrow> BlobServiceClient io" where
  "initializeAzureBlobPrivateService_wi e = (\<lambda>w.
     case blobServiceClient w of
       Some s \<Rightarrow> (Inr s, w)
     | None \<Rightarrow>
         if \<not> truthy (AZURE_PRIVATE_STORAGE_ACCOUNT_NAME e)
            \<or> \<not> truthy (Some (AZURE_PRIVATE_CONTAINER_NAME e))
         then (Inl (new_Error ''Azure Blob Private: Missing required configuration. Provide AZURE_PRIVATE_STORAGE_ACCOUNT_NAME and AZURE_PRIVATE_CONTAINER_NAME''), w)
         else
           let url = ''https://'' @ interpolate (AZURE_PRIVATE_STORAGE_ACCOUNT_NAME e)
                       @ ''.blob.core.windows.net''
           in case newWorkloadIdentityCredential e of
                Some error \<Rightarrow>
                  (Inl (new_Error ''Azure Blob Private: Failed to initialize with WorkloadIdentityCredential. Ensure the pod has proper Workload Identity permissions and is running in AKS with Workload Identity enabled.''), w)
              | None \<Rightarrow>
                  let s = \<lparr>serviceUrl = url, serviceCredential = WorkloadIdentityCredential\<rparr>
                  in (Inr s, w\<lparr>blobServiceClient := Some s,
                                containerClient := Some (getContainerClient s (AZURE_PRIVATE_CONTAINER_NAME e))\<rparr>))"

definition getDirectBlobUrl :: "env \<Rightarrow> string \<Rightarrow> string \<Rightarrow> string" where
  "getDirectBlobUrl e bName cName =
     ''https://'' @ interpolate (AZURE_PRIVATE_STORAGE_ACCOUNT_NAME e)
       @ ''.blob.core.windows.net/'' @ cName @ ''/'' @ bName"

definition uploadBufferDirectly :: "env \<Rightarrow> string \<Rightarrow> buffer \<Rightarrow> string option \<Rightarrow> unit io" where
  "uploadBufferDirectly e bName buf contentType =
     bind (getBlockBlobClient bName) (\<lambda>blockBlobClient.
       perform (Upload blockBlobClient buf (length buf)
                  (orDefault contentType ''application/octet-stream''))
         (settled (blobUpload e blockBlobClient buf)))"

definition uploadFileDirectly :: "env \<Rightarrow> string \<Rightarrow> string \<Rightarrow> unit io" where
  "uploadFileDirectly e bName filePath =
     bind (getBlockBlobClient bName) (\<lambda>blockBlobClient.
       let contentType = contentTypeOf e filePath
       in perform (UploadFile blockBlobClient filePath contentType)
            (settled (blobUploadFile e blockBlobClient filePath)))"

definition saveBufferToAzureBlobPrivate_wi ::
  "env \<Rightarrow> string option \<Rightarrow> buffer \<Rightarrow> string \<Rightarrow> string option \<Rightarrow> string option \<Rightarrow> string io" where
  "saveBufferToAzureBlobPrivate_wi e userId buf fileName basePath cNameArg =
     (let cName = orDefault cNameArg (AZURE_PRIVATE_CONTAINER_NAME e)
      in catch
        (bind (initializeAzureBlobPrivateService_wi e) (\<lambda>_.
         bind (containerClient_createIfNotExists e) (\<lambda>_.
           let blobPath = orDefault basePath defaultBasePath @ ''/'' @ interpolate userId
                            @ ''/'' @ fileName;
               contentType = contentTypeOf e fileName
           in bind (uploadBufferDirectly e blobPath buf (Some contentType)) (\<lambda>_.
                ret (getDirectBlobUrl e blobPath cName)))))
        (\<lambda>error. throw error))"

definition saveURLToAzureBlobPrivate_wi ::
  "env \<Rightarrow> string option \<Rightarrow> string \<Rightarrow> string \<Rightarrow> string option \<Rightarrow> string option \<Rightarrow> string io" where
  "saveURLToAzureBlobPrivate_wi e userId URL fileName basePath cNameArg =
     (let basePath' = orDefault basePath defaultBasePath;
          cName = orDefault cNameArg (AZURE_PRIVATE_CONTAINER_NAME e)
      in catch
        (bind (perform (Fetch URL) (fetchBuffer e URL)) (\<lambda>buf.
           saveBufferToAzureBlobPrivate_wi e userId buf fileName (Some basePath') (Some cName)))
        (\<lambda>error. throw error))"

definition getAzureBlobPrivateURL_wi ::
  "env \<Rightarrow> string \<Rightarrow> string option \<Rightarrow> string option \<Rightarrow> string option \<Rightarrow> string io" where
  "getAzureBlobPrivateURL_wi e fileName basePath userId cNameArg =
     (let cName = orDefault cNameArg (AZURE_PRIVATE_CONTAINER_NAME e)
      in catch
        (bind (initializeAzureBlobPrivateService_wi e) (\<lambda>_.
           let blobPath =
                 (if truthy userId
                  then orDefault basePath defaultBasePath @ ''/'' @ interpolate userId
                         @ ''/'' @ fileName
                  else orDefault basePath defaultBasePath @ ''/'' @ fileName)
           in ret (getDirectBlobUrl e blobPath cName)))
        (\<lambda>error. throw error))"

definition deleteFileFromAzureBlobPrivate_wi :: "env \<Rightarrow> string \<Rightarrow> string \<Rightarrow> unit io" where
  "deleteFileFromAzureBlobPrivate_wi e req_user_id file_filepath =
     catch
       (bind (initializeAzureBlobPrivateService_wi e) (\<lambda>_.
          case extractBlobPath e file_filepath of
            None \<Rightarrow> throw (TypeError ''Cannot read properties of undefined (reading 'includes')'')
          | Some blobPath \<Rightarrow>
              if \<not> js_includes blobPath req_user_id
              then throw (new_Error ''User ID not found in blob path'')
              else bind (getBlockBlobClient blobPath) (\<lambda>blockBlobClient.
                     perform (Delete blockBlobClient) (settled (blobDelete e blockBlobClient)))))
       (\<lambda>error. if statusCode error = Some 404 then ret () else throw error)"

definition uploadFileToAzureBlobPrivate_wi ::
  "env \<Rightarrow> string \<Rightarrow> string \<Rightarrow> string \<Rightarrow> string option \<Rightarrow> string option \<Rightarrow> string uploadResult io" where
  "uploadFileToAzureBlobPrivate_wi e req_user_id file_path file_id basePath cNameArg =
     (let cName = orDefault cNameArg (AZURE_PRIVATE_CONTAINER_NAME e)
      in catch
        (bind (initializeAzureBlobPrivateService_wi e) (\<lambda>_.
           let inputFilePath = file_path
           in bind (perform (Stat inputFilePath) (statSize e inputFilePath)) (\<lambda>stats_size.
             let userId = req_user_id;
                 fileName = file_id @ ''__'' @ basename inputFilePath;
                 blobPath = orDefault basePath defaultBasePath @ ''/'' @ userId @ ''/'' @ fileName
             in bind (containerClient_createIfNotExists e) (\<lambda>_.
                bind (uploadFileDirectly e blobPath inputFilePath) (\<lambda>_.
                  let downloadUrl = getDirectBlobUrl e blobPath cName
                  in ret \<lparr>filepath = downloadUrl, bytes = stats_size\<rparr>)))))
        (\<lambda>error. throw error))"

text \<open>
  The blob name is the container name; \<open>fileURL\<close> is not read. There is no call of the
  initialisation here. \<^verbatim>\<open>getBlobClient\<close> gives a client for a blob of the container as
  \<^verbatim>\<open>getBlockBlobClient\<close> does, so the same record stands for both.
\<close>

definition getAzureBlobPrivateFileStream_wi :: "env \<Rightarrow> string \<Rightarrow> buffer io" where
  "getAzureBlobPrivateFileStream_wi e fileURL =
     catch
       (let bName = AZURE_PRIVATE_CONTAINER_NAME e
        in bind (getBlockBlobClient bName) (\<lambda>blobClient.
             perform (Download blobClient) (blobDownload e blobClient)))
       (\<lambda>error. throw error)"

section \<open>Properties stated about the backends\<close>

text \<open>The module's singletons are either both unset or the container client is the one
  bound to the configured container.\<close>

definition singletons_ok :: "env \<Rightarrow> world \<Rightarrow> bool" where
  "singletons_ok e w =
     (case blobServiceClient w of
        None \<Rightarrow> True
      | Some s \<Rightarrow> containerClient w = Some (getContainerClient s (AZURE_PRIVATE_CONTAINER_NAME e)))"

definition noOtherPermission :: "BlobSASPermissions \<Rightarrow> bool" where
  "noOtherPermission p =
     (\<not> add p \<and> \<not> create p \<and> \<not> delete p \<and> \<not> deleteVersion p \<and> \<not> tag p \<and> \<not> move p
      \<and> \<not> execute p \<and> \<not> setImmutabilityPolicy p \<and> \<not> permanentDelete p)"

text \<open>The grant part of a minted upload URL, when minting succeeded.\<close>

definition grantOf :: "(js_error + signedUrl) \<times> world \<Rightarrow> SASQueryParameters option" where
  "grantOf r = (case fst r of Inl err \<Rightarrow> None | Inr u \<Rightarrow> Some (sasQuery u))"

text \<open>The blob addressed by a returned signed URL, when the operation succeeded.\<close>

definition addressedBlob :: "(js_error + signedUrl) \<times> world \<Rightarrow> js_error + string" where
  "addressedBlob r = map_sum id (\<lambda>u. blobName (blobUrl u)) (fst r)"

subsection \<open>A concrete environment\<close>

text \<open>
  A configured deployment on a host in UTC whose collaborators all succeed: the account
  \<open>acct\<close>, the default container \<open>files\<close>, files of 2048 bytes.
\<close>

definition example_env :: env where
  "example_env =
     \<lparr>AZURE_PRIVATE_STORAGE_ACCOUNT_NAME = Some ''acct'',
      AZURE_PRIVATE_STORAGE_ACCOUNT_KEY = Some ''c2VjcmV0'',
      process_env_AZURE_PRIVATE_CONTAINER_NAME = None,
      zone = \<lparr>offsetBefore = 0, offsetAfter = 0, transition = 0\<rparr>,
      clock = (\<lambda>n. 1700000000000 + 1000 * int n),
      mimeGetType = (\<lambda>name. None),
      fetchBuffer = (\<lambda>url. Inr [1, 2, 3]),
      httpPut = (\<lambda>url body. None),
      createIfNotExists = (\<lambda>c. None),
      blobUpload = (\<lambda>b buf. None),
      blobUploadFile = (\<lambda>b path. None),
      blobDelete = (\<lambda>b. None),
      blobDownload = (\<lambda>b. Inr [1, 2, 3]),
      statSize = (\<lambda>path. Inr 2048),
      readFile = (\<lambda>path. Inr [1, 2, 3]),
      newWorkloadIdentityCredential = None\<rparr>"

definition example_service :: BlobServiceClient where
  "example_service =
     \<lparr>serviceUrl = ''https://acct.blob.core.windows.net'',
      serviceCredential = SharedKey \<lparr>accountName = Some ''acct'', accountKey = Some ''c2VjcmV0''\<rparr>\<rparr>"

text \<open>The module state after the first successful initialisation in that environment.\<close>

definition example_world :: world where
  "example_world =
     \<lparr>blobServiceClient = Some example_service,
      containerClient = Some \<lparr>serviceClient = example_service, container = ''files''\<rparr>,
      ticks = 0, trace = []\<rparr>"

text \<open>The same for the identity-based backend.\<close>

definition example_world_wi :: world where
  "example_world_wi =
     \<lparr>blobServiceClient =
        Some \<lparr>serviceUrl = ''https://acct.blob.core.windows.net'',
              serviceCredential = WorkloadIdentityCredential\<rparr>,
      containerClient =
        Some \<lparr>serviceClient = \<lparr>serviceUrl = ''https://acct.blob.core.windows.net'',
                                 serviceCredential = WorkloadIdentityCredential\<rparr>,
              container = ''files''\<rparr>,
      ticks = 0, trace = []\<rparr>"

text \<open>
  Central European time around the end of daylight saving on 27 October 2024:
  UTC+2 before 01:00:00 UTC, UTC+1 from then on.
\<close>

definition europe_berlin_autumn_2024 :: timeZone where
  "europe_berlin_autumn_2024 =
     \<lparr>offsetBefore = 7200000, offsetAfter = 3600000, transition = 1729990800000\<rparr>"

text \<open>What the \<^verbatim>\<open>try\<close> block of the delete does once the service is initialised.\<close>

definition deleteBody :: "env \<Rightarrow> string \<Rightarrow> string \<Rightarrow> unit io" where
  "deleteBody e uid fp = (\<lambda>w1.
   case extractBlobPath e fp of
     None \<Rightarrow> (Inl (TypeError ''Cannot read properties of undefined (reading 'includes')''), w1)
   | Some p \<Rightarrow>
      if \<not> js_includes p uid then (Inl (new_Error ''User ID not found in blob path''), w1)
      else (case containerClient w1 of
              None \<Rightarrow> (Inl (TypeError ''Cannot read properties of null''), w1)
            | Some c \<Rightarrow>
               ((case blobDelete e \<lparr>containerOf = c, blobName = p\<rparr> of
                   None \<Rightarrow> Inr ()
                 | Some err \<Rightarrow> if statusCode err = Some 404 then Inr () else Inl err),
                w1\<lparr>trace := trace w1 @ [Delete \<lparr>containerOf = c, blobName = p\<rparr>]\<rparr>)))"

text \<open>An effectful computation only ever appends to the record of calls.\<close>

definition extends :: "'a io \<Rightarrow> bool" where
  "extends m = (\<forall>w. \<exists>evs. trace (snd (m w)) = trace w @ evs)"

section \<open>Proofs\<close>

subsection \<open>The effect combinators and the minting functions, computed\<close>

lemma catch_rethrow: "catch m (\<lambda>error. throw error) = m"
  by (auto simp: catch_def throw_def fun_eq_iff split: prod.splits sum.splits)

lemma bind_InrD:
  "bind m f w = (Inr y, w2) \<Longrightarrow> \<exists>x w1. m w = (Inr x, w1) \<and> f x w1 = (Inr y, w2)"
  by (auto simp: bind_def split: prod.splits sum.splits)

lemma createSASReadString_eq:
  "createSASReadString e key acct cName duration w =
     (Inr (generateBlobSASQueryParameters
             \<lparr>containerName = cName, permissions = new_BlobSASPermissions\<lparr>read := True\<rparr>,
              expiresOn = expiryDateTime (zone e) (clock e (ticks w)) (orDefault duration 5)\<rparr>
             \<lparr>accountName = acct, accountKey = key\<rparr>),
      w\<lparr>ticks := Suc (ticks w)\<rparr>)"
  by (simp add: createSASReadString_def bind_def new_Date_def ret_def)

lemma getBlockBlobClient_eq:
  "getBlockBlobClient name w =
     (case containerClient w of
        None \<Rightarrow> (Inl (TypeError ''Cannot read properties of null''), w)
      | Some c \<Rightarrow> (Inr \<lparr>containerOf = c, blobName = name\<rparr>, w))"
  by (simp add: getBlockBlobClient_def theContainerClient_def bind_def ret_def split: option.splits)

lemma createSASWriteString_eq:
  "createSASWriteString e bName key acct cName duration w =
     (case containerClient w of
        None \<Rightarrow> (Inl (TypeError ''Cannot read properties of null''), w\<lparr>ticks := Suc (ticks w)\<rparr>)
      | Some c \<Rightarrow>
         (Inr \<lparr>blobUrl = \<lparr>containerOf = c, blobName = bName\<rparr>,
               sasQuery = generateBlobSASQueryParameters
                 \<lparr>containerName = cName, permissions = new_BlobSASPermissions\<lparr>write := True\<rparr>,
                  expiresOn = expiryDateTime (zone e) (clock e (ticks w)) (orDefault duration 5)\<rparr>
                 \<lparr>accountName = acct, accountKey = key\<rparr>\<rparr>,
          w\<lparr>ticks := Suc (ticks w)\<rparr>))"
  by (simp add: createSASWriteString_def bind_def new_Date_def ret_def getBlockBlobClient_eq
      split: option.splits)

lemma getSignedDownloadUrl_eq:
  "getSignedDownloadUrl e bName key acct cName duration w =
     (case containerClient w of
        None \<Rightarrow> (Inl (TypeError ''Cannot read properties of null''), w)
      | Some c \<Rightarrow>
         (Inr \<lparr>blobUrl = \<lparr>containerOf = c, blobName = bName\<rparr>,
               sasQuery = generateBlobSASQueryParameters
                 \<lparr>containerName = cName, permissions = new_BlobSASPermissions\<lparr>read := True\<rparr>,
                  expiresOn = expiryDateTime (zone e) (clock e (ticks w)) (orDefault duration 5)\<rparr>
                 \<lparr>accountName = acct, accountKey = key\<rparr>\<rparr>,
          w\<lparr>ticks := Suc (ticks w)\<rparr>))"
  by (simp add: getSignedDownloadUrl_def bind_def ret_def getBlockBlobClient_eq
      createSASReadString_eq split: option.splits)

text \<open>
  Claim C3. A grant minted by \<open>createSASReadString\<close> carries the read permission and no
  other one, in particular not write; a grant minted by \<open>createSASWriteString\<close> carries
  the write permission and no other one, in particular not read. Neither function sets
  both flags.
\<close>

theorem sas_grants_single_permission:
  "(\<exists>q w'. createSASReadString e key acct cName duration w = (Inr q, w')
       \<and> read (permissions (signedValues q)) \<and> \<not> write (permissions (signedValues q))
       \<and> noOtherPermission (permissions (signedValues q)))
   \<and> (\<forall>u w'. createSASWriteString e bName key acct cName duration w = (Inr u, w') \<longrightarrow>
         write (permissions (signedValues (sasQuery u)))
         \<and> \<not> read (permissions (signedValues (sasQuery u)))
         \<and> noOtherPermission (permissions (signedValues (sasQuery u))))"
  by (auto simp: createSASReadString_eq createSASWriteString_eq new_BlobSASPermissions_def
      noOtherPermission_def split: option.splits)

theorem sas_grants_single_permission_witness:
  "\<exists>u w'. createSASWriteString example_env ''images/u1/a.png'' (Some ''c2VjcmV0'') (Some ''acct'')
             ''files'' None example_world = (Inr u, w')
     \<and> write (permissions (signedValues (sasQuery u)))
     \<and> \<not> read (permissions (signedValues (sasQuery u)))"
proof -
  have "\<exists>u w'. createSASWriteString example_env ''images/u1/a.png'' (Some ''c2VjcmV0'')
                  (Some ''acct'') ''files'' None example_world = (Inr u, w')"
    by (simp add: createSASWriteString_eq example_world_def)
  then obtain u w' where h: "createSASWriteString example_env ''images/u1/a.png''
      (Some ''c2VjcmV0'') (Some ''acct'') ''files'' None example_world = (Inr u, w')"
    by blast
  with sas_grants_single_permission
    [of example_env "Some ''c2VjcmV0''" "Some ''acct''" "''files''" None example_world
        "''images/u1/a.png''"]
  show ?thesis by blast
qed

text \<open>
  Claim C9. In the identity-based backend \<open>getAzureBlobPrivateFileStream\<close> does not read
  its \<open>fileURL\<close> argument: any two URLs give the same result, and once the container
  client exists the one call made is the download of the blob whose name is the
  configured container name.
\<close>

theorem stream_ignores_fileURL:
  "getAzureBlobPrivateFileStream_wi e fileURL1 w = getAzureBlobPrivateFileStream_wi e fileURL2 w
   \<and> (\<forall>c. containerClient w = Some c \<longrightarrow>
         getAzureBlobPrivateFileStream_wi e fileURL1 w =
           (blobDownload e \<lparr>containerOf = c, blobName = AZURE_PRIVATE_CONTAINER_NAME e\<rparr>,
            w\<lparr>trace := trace w
                 @ [Download \<lparr>containerOf = c, blobName = AZURE_PRIVATE_CONTAINER_NAME e\<rparr>]\<rparr>))"
  by (simp add: getAzureBlobPrivateFileStream_wi_def catch_rethrow getBlockBlobClient_eq
      bind_def perform_def)

theorem stream_ignores_fileURL_witness:
  "getAzureBlobPrivateFileStream_wi example_env
      ''https://acct.blob.core.windows.net/files/images/u1/a.png'' example_world_wi
   = getAzureBlobPrivateFileStream_wi example_env
      ''https://acct.blob.core.windows.net/files/images/u2/b.png'' example_world_wi
   \<and> trace (snd (getAzureBlobPrivateFileStream_wi example_env
        ''https://acct.blob.core.windows.net/files/images/u1/a.png'' example_world_wi))
     = [Download \<lparr>containerOf = the (containerClient example_world_wi), blobName = ''files''\<rparr>]"
proof -
  note t = stream_ignores_fileURL [where e = example_env
      and ?fileURL1.0 = "''https://acct.blob.core.windows.net/files/images/u1/a.png''"
      and ?fileURL2.0 = "''https://acct.blob.core.windows.net/files/images/u2/b.png''"
      and w = example_world_wi]
  have c: "containerClient example_world_wi = Some (the (containerClient example_world_wi))"
    by (simp add: example_world_wi_def)
  have n: "AZURE_PRIVATE_CONTAINER_NAME example_env = ''files''"
    by (simp add: AZURE_PRIVATE_CONTAINER_NAME_def example_env_def orDefault_def)
  have tr: "trace example_world_wi = []"
    by (simp add: example_world_wi_def)
  from t c have r: "getAzureBlobPrivateFileStream_wi example_env
      ''https://acct.blob.core.windows.net/files/images/u1/a.png'' example_world_wi =
    (blobDownload example_env \<lparr>containerOf = the (containerClient example_world_wi),
        blobName = AZURE_PRIVATE_CONTAINER_NAME example_env\<rparr>,
     example_world_wi\<lparr>trace := trace example_world_wi
        @ [Download \<lparr>containerOf = the (containerClient example_world_wi),
             blobName = AZURE_PRIVATE_CONTAINER_NAME example_env\<rparr>]\<rparr>)"
    by blast
  have "trace (snd (getAzureBlobPrivateFileStream_wi example_env
        ''https://acct.blob.core.windows.net/files/images/u1/a.png'' example_world_wi))
     = [Download \<lparr>containerOf = the (containerClient example_world_wi), blobName = ''files''\<rparr>]"
    by (simp add: r n tr)
  with t show ?thesis
    by blast
qed

subsection \<open>The expiry timestamp\<close>

lemma time_fields:
  "MakeDate (Day t) (MakeTime (HourFromTime t) (MinFromTime t + d) (SecFromTime t) (msFromTime t))
     = t + d * 60000"
proof -
  define a where "a = t div 1000"
  define b where "b = a div 60"
  define c where "c = b div 60"
  define q where "q = c div 24"
  define r0 where "r0 = t mod 1000"
  define r1 where "r1 = a mod 60"
  define r2 where "r2 = b mod 60"
  define r3 where "r3 = c mod 24"
  have m: "t div 60000 = b"
    using zdiv_zmult2_eq [of 60 t 1000] by (simp add: a_def b_def)
  have h: "t div 3600000 = c"
    using zdiv_zmult2_eq [of 60 t 60000] by (simp add: m c_def)
  have dd: "t div 86400000 = q"
    using zdiv_zmult2_eq [of 24 t 3600000] by (simp add: h q_def)
  have e0: "t = 1000 * a + r0"
    by (simp add: a_def r0_def)
  have e1: "a = 60 * b + r1"
    by (simp add: b_def r1_def)
  have e2: "b = 60 * c + r2"
    by (simp add: c_def r2_def)
  have e3: "c = 24 * q + r3"
    by (simp add: q_def r3_def)
  have "q * 86400000 + (r3 * 3600000 + (r2 + d) * 60000 + r1 * 1000 + r0) = t + d * 60000"
    by (simp add: e0 e1 e2 e3 algebra_simps)
  then show ?thesis
    by (simp add: MakeDate_def MakeTime_def Day_def HourFromTime_def MinFromTime_def
        SecFromTime_def msFromTime_def msPerDay_def msPerHour_def msPerMinute_def m h dd
        flip: a_def r0_def r1_def r2_def r3_def)
qed

lemma expiryDateTime_eq:
  "expiryDateTime z now d = new_Date_of (TimeClip (UTC z (LocalTime z now + d * 60000)))"
  by (simp add: expiryDateTime_def setMinutes_def getMinutes_def Let_def time_fields)

lemma expiryDateTime_fixed_offset:
  assumes "offsetBefore z = offsetAfter z" and "\<bar>now + d * 60000\<bar> \<le> 8640000000000000"
  shows "expiryDateTime z now d = Some (now + d * 60000)"
  using assms by (simp add: expiryDateTime_eq UTC_def LocalTime_def TimeClip_def new_Date_of_def)


text \<open>
  Claim C5. The expiry embedded in a grant should be the minting time plus the requested
  number of minutes. The minting functions add the minutes to the local-time minute field,
  so on a host whose zone leaves daylight saving the result is off by the zone's jump:
  minted at 00:58:00 UTC on 27 October 2024 in Central European time with a duration of
  5 minutes, the read grant expires 65 minutes later; minted at 01:30:00 UTC with the
  default duration, the write grant's expiry lies 55 minutes before the minting time.
\<close>

theorem expiry_jumps_at_end_of_daylight_saving:
  "fst (createSASReadString
          (example_env\<lparr>zone := europe_berlin_autumn_2024, clock := (\<lambda>n. 1729990680000)\<rparr>)
          (Some ''c2VjcmV0'') (Some ''acct'') ''files'' (Some 5) example_world)
     = Inr (generateBlobSASQueryParameters
             \<lparr>containerName = ''files'', permissions = new_BlobSASPermissions\<lparr>read := True\<rparr>,
              expiresOn = Some (1729990680000 + 65 * 60000)\<rparr>
             \<lparr>accountName = Some ''acct'', accountKey = Some ''c2VjcmV0''\<rparr>)
   \<and> grantOf (createSASWriteString
          (example_env\<lparr>zone := europe_berlin_autumn_2024, clock := (\<lambda>n. 1729992600000)\<rparr>)
          ''images/u1/a.png'' (Some ''c2VjcmV0'') (Some ''acct'') ''files'' None example_world)
     = Some (generateBlobSASQueryParameters
             \<lparr>containerName = ''files'', permissions = new_BlobSASPermissions\<lparr>write := True\<rparr>,
              expiresOn = Some (1729992600000 - 55 * 60000)\<rparr>
             \<lparr>accountName = Some ''acct'', accountKey = Some ''c2VjcmV0''\<rparr>)"
  by (simp add: createSASReadString_eq createSASWriteString_eq grantOf_def expiryDateTime_eq
      example_env_def example_world_def europe_berlin_autumn_2024_def UTC_def LocalTime_def
      TimeClip_def new_Date_of_def orDefault_def)

subsection \<open>What a grant is scoped to\<close>

lemma write_grant_same_for_all_blobs:
  "grantOf (createSASWriteString e b1 key acct cName duration w)
     = grantOf (createSASWriteString e b2 key acct cName duration w)"
  by (simp add: createSASWriteString_eq grantOf_def split: option.splits)

text \<open>
  Claim C2 as stated, that the grant minted for a blob gives access to exactly that blob,
  fails whatever access a query string is taken to give: the write grants minted for any
  two blobs are one and the same value.
\<close>

theorem grant_blob_scoped_counterexample:
  "\<not> (\<exists>permits. \<forall>b b'.
        permits (grantOf (createSASWriteString example_env b (Some ''c2VjcmV0'') (Some ''acct'')
                   ''files'' None example_world)) b' = (b' = b))"
proof
  assume "\<exists>permits. \<forall>b b'.
        permits (grantOf (createSASWriteString example_env b (Some ''c2VjcmV0'') (Some ''acct'')
                   ''files'' None example_world)) b' = (b' = b)"
  then obtain permits where p: "\<And>b b'.
        permits (grantOf (createSASWriteString example_env b (Some ''c2VjcmV0'') (Some ''acct'')
                   ''files'' None example_world)) b' = (b' = b)"
    by blast
  have "permits (grantOf (createSASWriteString example_env ''images/u1/a.png'' (Some ''c2VjcmV0'')
          (Some ''acct'') ''files'' None example_world)) ''images/u1/a.png''"
    using p by simp
  then have "permits (grantOf (createSASWriteString example_env ''images/u2/b.png''
          (Some ''c2VjcmV0'') (Some ''acct'') ''files'' None example_world)) ''images/u1/a.png''"
    by (simp add: write_grant_same_for_all_blobs [of _ "''images/u1/a.png''" _ _ _ _ _ "''images/u2/b.png''"])
  then show False
    using p by simp
qed

text \<open>
  Claim C2, amended. A grant minted by \<open>createSASWriteString\<close>, or by
  \<open>createSASReadString\<close> on behalf of \<open>getSignedDownloadUrl\<close>, is scoped to the container
  named by the \<open>containerName\<close> argument: the grants minted for two blobs at the same
  clock reading are equal, and the container name signed is that argument.
\<close>

theorem grant_is_container_scoped:
  "(\<forall>u1 w1 u2 w2.
      createSASWriteString e b1 key acct cName duration w = (Inr u1, w1)
      \<and> createSASWriteString e b2 key acct cName duration w = (Inr u2, w2)
      \<longrightarrow> sasQuery u1 = sasQuery u2 \<and> containerName (signedValues (sasQuery u1)) = cName)
   \<and> (\<forall>u1 w1 u2 w2.
      getSignedDownloadUrl e b1 key acct cName duration w = (Inr u1, w1)
      \<and> getSignedDownloadUrl e b2 key acct cName duration w = (Inr u2, w2)
      \<longrightarrow> sasQuery u1 = sasQuery u2 \<and> containerName (signedValues (sasQuery u1)) = cName)"
  by (auto simp: createSASWriteString_eq getSignedDownloadUrl_eq split: option.splits)

theorem grant_is_container_scoped_witness:
  "\<exists>u1 u2 w1 w2.
      createSASWriteString example_env ''images/u1/a.png'' (Some ''c2VjcmV0'') (Some ''acct'')
         ''files'' None example_world = (Inr u1, w1)
    \<and> createSASWriteString example_env ''images/u2/b.png'' (Some ''c2VjcmV0'') (Some ''acct'')
         ''files'' None example_world = (Inr u2, w2)
    \<and> blobUrl u1 \<noteq> blobUrl u2
    \<and> sasQuery u1 = sasQuery u2
    \<and> containerName (signedValues (sasQuery u1)) = ''files''"
proof -
  have "\<exists>u1 u2 w1 w2.
      createSASWriteString example_env ''images/u1/a.png'' (Some ''c2VjcmV0'') (Some ''acct'')
         ''files'' None example_world = (Inr u1, w1)
    \<and> createSASWriteString example_env ''images/u2/b.png'' (Some ''c2VjcmV0'') (Some ''acct'')
         ''files'' None example_world = (Inr u2, w2)
    \<and> blobUrl u1 \<noteq> blobUrl u2"
    by (simp add: createSASWriteString_eq example_world_def)
  then obtain u1 u2 w1 w2 where h:
    "createSASWriteString example_env ''images/u1/a.png'' (Some ''c2VjcmV0'') (Some ''acct'')
         ''files'' None example_world = (Inr u1, w1)"
    "createSASWriteString example_env ''images/u2/b.png'' (Some ''c2VjcmV0'') (Some ''acct'')
         ''files'' None example_world = (Inr u2, w2)"
    "blobUrl u1 \<noteq> blobUrl u2"
    by blast
  from grant_is_container_scoped [of example_env "''images/u1/a.png''" "Some ''c2VjcmV0''"
      "Some ''acct''" "''files''" None example_world "''images/u2/b.png''"] h
  have "sasQuery u1 = sasQuery u2 \<and> containerName (signedValues (sasQuery u1)) = ''files''"
    by blast
  with h show ?thesis by blast
qed

subsection \<open>Initialisation and delete\<close>

lemma init_cases:
  "initializeAzureBlobPrivateService e w = (r, w1) \<Longrightarrow>
     trace w1 = trace w \<and> ticks w1 = ticks w
     \<and> (case r of
           Inl err \<Rightarrow> w1 = w \<and> statusCode err = None
         | Inr s \<Rightarrow> blobServiceClient w1 = Some s
                    \<and> (singletons_ok e w \<longrightarrow>
                          containerClient w1 = Some (getContainerClient s (AZURE_PRIVATE_CONTAINER_NAME e))))"
  by (auto simp: initializeAzureBlobPrivateService_def singletons_ok_def new_Error_def Let_def
      split: option.splits if_splits)

lemma init_wi_cases:
  "initializeAzureBlobPrivateService_wi e w = (r, w1) \<Longrightarrow>
     trace w1 = trace w \<and> ticks w1 = ticks w
     \<and> (case r of
           Inl err \<Rightarrow> w1 = w \<and> statusCode err = None
         | Inr s \<Rightarrow> blobServiceClient w1 = Some s
                    \<and> (singletons_ok e w \<longrightarrow>
                          containerClient w1 = Some (getContainerClient s (AZURE_PRIVATE_CONTAINER_NAME e))))"
  by (auto simp: initializeAzureBlobPrivateService_wi_def singletons_ok_def new_Error_def Let_def
      split: option.splits if_splits)

lemma delete_eq:
  "deleteFileFromAzureBlobPrivate e uid fp w =
     (case initializeAzureBlobPrivateService e w of
        (Inl err, w1) \<Rightarrow> (Inl err, w1)
      | (Inr s, w1) \<Rightarrow> deleteBody e uid fp w1)"
proof (cases "initializeAzureBlobPrivateService e w")
  case (Pair r w1)
  show ?thesis
  proof (cases r)
    case (Inl err)
    with Pair init_cases [of e w r w1] show ?thesis
      by (simp add: deleteFileFromAzureBlobPrivate_def catch_def bind_def throw_def)
  next
    case (Inr s)
    with Pair show ?thesis
      by (simp add: deleteFileFromAzureBlobPrivate_def deleteBody_def catch_def bind_def throw_def
          ret_def getBlockBlobClient_eq perform_def settled_def TypeError_def new_Error_def
          split: option.splits)
  qed
qed


lemma delete_wi_eq:
  "deleteFileFromAzureBlobPrivate_wi e uid fp w =
     (case initializeAzureBlobPrivateService_wi e w of
        (Inl err, w1) \<Rightarrow> (Inl err, w1)
      | (Inr s, w1) \<Rightarrow> deleteBody e uid fp w1)"
proof (cases "initializeAzureBlobPrivateService_wi e w")
  case (Pair r w1)
  show ?thesis
  proof (cases r)
    case (Inl err)
    with Pair init_wi_cases [of e w r w1] show ?thesis
      by (simp add: deleteFileFromAzureBlobPrivate_wi_def catch_def bind_def throw_def)
  next
    case (Inr s)
    with Pair show ?thesis
      by (simp add: deleteFileFromAzureBlobPrivate_wi_def deleteBody_def catch_def bind_def
          throw_def ret_def getBlockBlobClient_eq perform_def settled_def TypeError_def
          new_Error_def split: option.splits)
  qed
qed

lemma deleteBody_refuses:
  assumes "extractBlobPath e fp = Some p" and "\<not> js_includes p uid"
  shows "deleteBody e uid fp w1 = (Inl (new_Error ''User ID not found in blob path''), w1)"
  using assms by (simp add: deleteBody_def)

lemma deleteBody_trace:
  assumes "trace (snd (deleteBody e uid fp w1)) \<noteq> trace w1"
  shows "\<exists>p c. extractBlobPath e fp = Some p \<and> js_includes p uid
           \<and> trace (snd (deleteBody e uid fp w1))
               = trace w1 @ [Delete \<lparr>containerOf = c, blobName = p\<rparr>]"
  using assms by (auto simp: deleteBody_def split: option.splits if_splits)

lemma delete_refused_signed:
  assumes "extractBlobPath e fp = Some p" and "\<not> js_includes p uid"
  shows "(\<exists>err. fst (deleteFileFromAzureBlobPrivate e uid fp w) = Inl err)
     \<and> trace (snd (deleteFileFromAzureBlobPrivate e uid fp w)) = trace w
     \<and> (\<forall>s w1. initializeAzureBlobPrivateService e w = (Inr s, w1) \<longrightarrow>
           fst (deleteFileFromAzureBlobPrivate e uid fp w)
             = Inl (new_Error ''User ID not found in blob path''))"
proof (cases "initializeAzureBlobPrivateService e w")
  case (Pair r w1)
  with init_cases [of e w r w1] show ?thesis
    by (cases r) (simp_all add: delete_eq deleteBody_refuses [OF assms])
qed

lemma delete_refused_wi:
  assumes "extractBlobPath e fp = Some p" and "\<not> js_includes p uid"
  shows "(\<exists>err. fst (deleteFileFromAzureBlobPrivate_wi e uid fp w) = Inl err)
     \<and> trace (snd (deleteFileFromAzureBlobPrivate_wi e uid fp w)) = trace w
     \<and> (\<forall>s w1. initializeAzureBlobPrivateService_wi e w = (Inr s, w1) \<longrightarrow>
           fst (deleteFileFromAzureBlobPrivate_wi e uid fp w)
             = Inl (new_Error ''User ID not found in blob path''))"
proof (cases "initializeAzureBlobPrivateService_wi e w")
  case (Pair r w1)
  with init_wi_cases [of e w r w1] show ?thesis
    by (cases r) (simp_all add: delete_wi_eq deleteBody_refuses [OF assms])
qed

lemma delete_called_signed:
  assumes "trace (snd (deleteFileFromAzureBlobPrivate e uid fp w)) \<noteq> trace w"
  shows "\<exists>p c. extractBlobPath e fp = Some p \<and> js_includes p uid
           \<and> trace (snd (deleteFileFromAzureBlobPrivate e uid fp w))
               = trace w @ [Delete \<lparr>containerOf = c, blobName = p\<rparr>]"
proof (cases "initializeAzureBlobPrivateService e w")
  case (Pair r w1)
  show ?thesis
  proof (cases r)
    case (Inl err)
    with Pair init_cases [of e w r w1] assms show ?thesis
      by (simp add: delete_eq)
  next
    case (Inr s)
    with Pair init_cases [of e w r w1] assms deleteBody_trace [of e uid fp w1] show ?thesis
      by (simp add: delete_eq)
  qed
qed

lemma delete_called_wi:
  assumes "trace (snd (deleteFileFromAzureBlobPrivate_wi e uid fp w)) \<noteq> trace w"
  shows "\<exists>p c. extractBlobPath e fp = Some p \<and> js_includes p uid
           \<and> trace (snd (deleteFileFromAzureBlobPrivate_wi e uid fp w))
               = trace w @ [Delete \<lparr>containerOf = c, blobName = p\<rparr>]"
proof (cases "initializeAzureBlobPrivateService_wi e w")
  case (Pair r w1)
  show ?thesis
  proof (cases r)
    case (Inl err)
    with Pair init_wi_cases [of e w r w1] assms show ?thesis
      by (simp add: delete_wi_eq)
  next
    case (Inr s)
    with Pair init_wi_cases [of e w r w1] assms deleteBody_trace [of e uid fp w1] show ?thesis
      by (simp add: delete_wi_eq)
  qed
qed

text \<open>
  Claim C4. When the blob path extracted from \<open>file.filepath\<close> does not contain the
  requesting user's id, \<open>deleteFileFromAzureBlobPrivate\<close> (either backend) raises an error
  and makes no call at all, so the delete primitive is not invoked; after a successful
  initialisation the error is the authorization error
  \<^verbatim>\<open>User ID not found in blob path\<close>. Whenever the operation does make a call, that call
  is the one delete of the extracted blob path, and the user id occurs in that path.
\<close>

theorem delete_requires_user_id_in_path:
  "(\<forall>p. extractBlobPath e fp = Some p \<and> \<not> js_includes p uid \<longrightarrow>
       (\<exists>err. fst (deleteFileFromAzureBlobPrivate e uid fp w) = Inl err)
     \<and> trace (snd (deleteFileFromAzureBlobPrivate e uid fp w)) = trace w
     \<and> (\<forall>s w1. initializeAzureBlobPrivateService e w = (Inr s, w1) \<longrightarrow>
           fst (deleteFileFromAzureBlobPrivate e uid fp w)
             = Inl (new_Error ''User ID not found in blob path''))
     \<and> (\<exists>err. fst (deleteFileFromAzureBlobPrivate_wi e uid fp w) = Inl err)
     \<and> trace (snd (deleteFileFromAzureBlobPrivate_wi e uid fp w)) = trace w
     \<and> (\<forall>s w1. initializeAzureBlobPrivateService_wi e w = (Inr s, w1) \<longrightarrow>
           fst (deleteFileFromAzureBlobPrivate_wi e uid fp w)
             = Inl (new_Error ''User ID not found in blob path'')))
   \<and> (trace (snd (deleteFileFromAzureBlobPrivate e uid fp w)) \<noteq> trace w \<longrightarrow>
        (\<exists>p c. extractBlobPath e fp = Some p \<and> js_includes p uid
           \<and> trace (snd (deleteFileFromAzureBlobPrivate e uid fp w))
               = trace w @ [Delete \<lparr>containerOf = c, blobName = p\<rparr>]))
   \<and> (trace (snd (deleteFileFromAzureBlobPrivate_wi e uid fp w)) \<noteq> trace w \<longrightarrow>
        (\<exists>p c. extractBlobPath e fp = Some p \<and> js_includes p uid
           \<and> trace (snd (deleteFileFromAzureBlobPrivate_wi e uid fp w))
               = trace w @ [Delete \<lparr>containerOf = c, blobName = p\<rparr>]))"
  using delete_refused_signed [of e fp _ uid w] delete_refused_wi [of e fp _ uid w]
    delete_called_signed [of e uid fp w] delete_called_wi [of e uid fp w]
  by blast

lemma example_extract:
  "extractBlobPath example_env ''https://acct.blob.core.windows.net/files/images/u1/a.png''
     = Some ''images/u1/a.png''"
  by (simp add: extractBlobPath_def js_split_def at_index_def AZURE_PRIVATE_CONTAINER_NAME_def
      orDefault_def example_env_def)

lemma example_not_included: "\<not> js_includes ''images/u1/a.png'' ''u2''"
  by (simp add: js_includes_def sublist_code)

lemma example_included: "js_includes ''images/u1/a.png'' ''u1''"
  by (simp add: js_includes_def sublist_code)

lemma example_init:
  "initializeAzureBlobPrivateService example_env initial_world = (Inr example_service, example_world)"
  by (simp add: initializeAzureBlobPrivateService_def example_env_def initial_world_def
      example_world_def example_service_def truthy_def interpolate_def
      AZURE_PRIVATE_CONTAINER_NAME_def orDefault_def getContainerClient_def Let_def)

lemma example_init_wi:
  "initializeAzureBlobPrivateService_wi (example_env\<lparr>blobDelete := d\<rparr>) initial_world
     = (Inr (the (blobServiceClient example_world_wi)), example_world_wi)"
  by (simp add: initializeAzureBlobPrivateService_wi_def example_env_def initial_world_def
      example_world_wi_def truthy_def interpolate_def AZURE_PRIVATE_CONTAINER_NAME_def
      orDefault_def getContainerClient_def Let_def)

theorem delete_requires_user_id_in_path_witness:
  "fst (deleteFileFromAzureBlobPrivate example_env ''u2''
          ''https://acct.blob.core.windows.net/files/images/u1/a.png'' initial_world)
     = Inl (new_Error ''User ID not found in blob path'')
   \<and> trace (snd (deleteFileFromAzureBlobPrivate example_env ''u2''
          ''https://acct.blob.core.windows.net/files/images/u1/a.png'' initial_world)) = []
   \<and> fst (deleteFileFromAzureBlobPrivate_wi example_env ''u2''
          ''https://acct.blob.core.windows.net/files/images/u1/a.png'' initial_world)
     = Inl (new_Error ''User ID not found in blob path'')
   \<and> trace (snd (deleteFileFromAzureBlobPrivate_wi example_env ''u2''
          ''https://acct.blob.core.windows.net/files/images/u1/a.png'' initial_world)) = []"
proof -
  have t: "trace initial_world = []"
    by (simp add: initial_world_def)
  have i: "initializeAzureBlobPrivateService_wi example_env initial_world
     = (Inr (the (blobServiceClient example_world_wi)), example_world_wi)"
    using example_init_wi [of "blobDelete example_env"] by simp
  from delete_requires_user_id_in_path [of example_env
      "''https://acct.blob.core.windows.net/files/images/u1/a.png''" "''u2''" initial_world]
    example_extract example_not_included example_init i
  show ?thesis
    unfolding t by blast
qed
lemma deleteBody_backend_failure:
  assumes "containerClient w1 = Some c" and "extractBlobPath e fp = Some p"
    and "js_includes p uid" and "blobDelete e \<lparr>containerOf = c, blobName = p\<rparr> = Some err"
  shows "deleteBody e uid fp w1 =
           (if statusCode err = Some 404 then Inr () else Inl err,
            w1\<lparr>trace := trace w1 @ [Delete \<lparr>containerOf = c, blobName = p\<rparr>]\<rparr>)"
  using assms by (simp add: deleteBody_def)

lemma deleteBody_never_404:
  assumes "fst (deleteBody e uid fp w1) = Inl err"
  shows "statusCode err \<noteq> Some 404"
  using assms
  by (auto simp: deleteBody_def TypeError_def new_Error_def split: option.splits if_splits)

lemma delete_never_404_signed:
  assumes "fst (deleteFileFromAzureBlobPrivate e uid fp w) = Inl err"
  shows "statusCode err \<noteq> Some 404"
proof (cases "initializeAzureBlobPrivateService e w")
  case (Pair r w1)
  show ?thesis
  proof (cases r)
    case (Inl err')
    with Pair init_cases [of e w r w1] assms show ?thesis
      by (simp add: delete_eq)
  next
    case (Inr s)
    with Pair assms deleteBody_never_404 [of e uid fp w1 err] show ?thesis
      by (simp add: delete_eq)
  qed
qed

lemma delete_never_404_wi:
  assumes "fst (deleteFileFromAzureBlobPrivate_wi e uid fp w) = Inl err"
  shows "statusCode err \<noteq> Some 404"
proof (cases "initializeAzureBlobPrivateService_wi e w")
  case (Pair r w1)
  show ?thesis
  proof (cases r)
    case (Inl err')
    with Pair init_wi_cases [of e w r w1] assms show ?thesis
      by (simp add: delete_wi_eq)
  next
    case (Inr s)
    with Pair assms deleteBody_never_404 [of e uid fp w1 err] show ?thesis
      by (simp add: delete_wi_eq)
  qed
qed

text \<open>
  Claim C6. When the delete primitive fails with \<open>err\<close>, the operation returns normally
  if the status code of \<open>err\<close> is 404 and raises \<open>err\<close> itself otherwise; no error that
  the operation raises has status code 404.
\<close>

theorem delete_swallows_not_found_only:
  "(\<forall>s w1 c p err.
      initializeAzureBlobPrivateService e w = (Inr s, w1) \<and> containerClient w1 = Some c
      \<and> extractBlobPath e fp = Some p \<and> js_includes p uid
      \<and> blobDelete e \<lparr>containerOf = c, blobName = p\<rparr> = Some err \<longrightarrow>
      deleteFileFromAzureBlobPrivate e uid fp w =
        (if statusCode err = Some 404 then Inr () else Inl err,
         w1\<lparr>trace := trace w1 @ [Delete \<lparr>containerOf = c, blobName = p\<rparr>]\<rparr>))
   \<and> (\<forall>s w1 c p err.
      initializeAzureBlobPrivateService_wi e w = (Inr s, w1) \<and> containerClient w1 = Some c
      \<and> extractBlobPath e fp = Some p \<and> js_includes p uid
      \<and> blobDelete e \<lparr>containerOf = c, blobName = p\<rparr> = Some err \<longrightarrow>
      deleteFileFromAzureBlobPrivate_wi e uid fp w =
        (if statusCode err = Some 404 then Inr () else Inl err,
         w1\<lparr>trace := trace w1 @ [Delete \<lparr>containerOf = c, blobName = p\<rparr>]\<rparr>))
   \<and> (\<forall>err. fst (deleteFileFromAzureBlobPrivate e uid fp w) = Inl err \<longrightarrow>
          statusCode err \<noteq> Some 404)
   \<and> (\<forall>err. fst (deleteFileFromAzureBlobPrivate_wi e uid fp w) = Inl err \<longrightarrow>
          statusCode err \<noteq> Some 404)"
proof -
  have "deleteFileFromAzureBlobPrivate e uid fp w =
        (if statusCode err = Some 404 then Inr () else Inl err,
         w1\<lparr>trace := trace w1 @ [Delete \<lparr>containerOf = c, blobName = p\<rparr>]\<rparr>)"
    if "initializeAzureBlobPrivateService e w = (Inr s, w1)" "containerClient w1 = Some c"
      "extractBlobPath e fp = Some p" "js_includes p uid"
      "blobDelete e \<lparr>containerOf = c, blobName = p\<rparr> = Some err" for s w1 c p err
    using that deleteBody_backend_failure [of w1 c e fp p uid err] by (simp add: delete_eq)
  moreover have "deleteFileFromAzureBlobPrivate_wi e uid fp w =
        (if statusCode err = Some 404 then Inr () else Inl err,
         w1\<lparr>trace := trace w1 @ [Delete \<lparr>containerOf = c, blobName = p\<rparr>]\<rparr>)"
    if "initializeAzureBlobPrivateService_wi e w = (Inr s, w1)" "containerClient w1 = Some c"
      "extractBlobPath e fp = Some p" "js_includes p uid"
      "blobDelete e \<lparr>containerOf = c, blobName = p\<rparr> = Some err" for s w1 c p err
    using that deleteBody_backend_failure [of w1 c e fp p uid err] by (simp add: delete_wi_eq)
  ultimately show ?thesis
    using delete_never_404_signed [of e uid fp w] delete_never_404_wi [of e uid fp w]
    by blast
qed

theorem delete_swallows_not_found_only_witness:
  "deleteFileFromAzureBlobPrivate
      (example_env\<lparr>blobDelete := (\<lambda>b. Some (JsError ''RestError'' ''BlobNotFound'' (Some 404)))\<rparr>)
      ''u1'' ''https://acct.blob.core.windows.net/files/images/u1/a.png'' initial_world
    = (Inr (), example_world\<lparr>trace :=
         [Delete \<lparr>containerOf = \<lparr>serviceClient = example_service, container = ''files''\<rparr>,
                  blobName = ''images/u1/a.png''\<rparr>]\<rparr>)
   \<and> deleteFileFromAzureBlobPrivate
      (example_env\<lparr>blobDelete := (\<lambda>b. Some (JsError ''RestError'' ''ServerBusy'' (Some 503)))\<rparr>)
      ''u1'' ''https://acct.blob.core.windows.net/files/images/u1/a.png'' initial_world
    = (Inl (JsError ''RestError'' ''ServerBusy'' (Some 503)), example_world\<lparr>trace :=
         [Delete \<lparr>containerOf = \<lparr>serviceClient = example_service, container = ''files''\<rparr>,
                  blobName = ''images/u1/a.png''\<rparr>]\<rparr>)
   \<and> deleteFileFromAzureBlobPrivate_wi
      (example_env\<lparr>blobDelete := (\<lambda>b. Some (JsError ''RestError'' ''BlobNotFound'' (Some 404)))\<rparr>)
      ''u1'' ''https://acct.blob.core.windows.net/files/images/u1/a.png'' initial_world
    = (Inr (), example_world_wi\<lparr>trace :=
         [Delete \<lparr>containerOf = the (containerClient example_world_wi),
                  blobName = ''images/u1/a.png''\<rparr>]\<rparr>)"
proof -
  have i: "initializeAzureBlobPrivateService (example_env\<lparr>blobDelete := d\<rparr>) initial_world
             = (Inr example_service, example_world)" for d
    by (simp add: initializeAzureBlobPrivateService_def example_env_def initial_world_def
        example_world_def example_service_def truthy_def interpolate_def
        AZURE_PRIVATE_CONTAINER_NAME_def orDefault_def getContainerClient_def Let_def)
  have x: "extractBlobPath (example_env\<lparr>blobDelete := d\<rparr>)
             ''https://acct.blob.core.windows.net/files/images/u1/a.png''
           = Some ''images/u1/a.png''" for d
    by (simp add: extractBlobPath_def js_split_def at_index_def AZURE_PRIVATE_CONTAINER_NAME_def
        orDefault_def example_env_def)
  have c: "containerClient example_world
             = Some \<lparr>serviceClient = example_service, container = ''files''\<rparr>"
    and t: "trace example_world = []"
    by (simp_all add: example_world_def)
  have cw: "containerClient example_world_wi = Some (the (containerClient example_world_wi))"
    and tw: "trace example_world_wi = []"
    by (simp_all add: example_world_wi_def)
  have d: "blobDelete (example_env\<lparr>blobDelete := (\<lambda>b. Some err)\<rparr>) b = Some err" for err b
    by simp
  note th = delete_swallows_not_found_only [where fp =
      "''https://acct.blob.core.windows.net/files/images/u1/a.png''" and uid = "''u1''"
      and w = initial_world]
  have "deleteFileFromAzureBlobPrivate
      (example_env\<lparr>blobDelete := (\<lambda>b. Some (JsError ''RestError'' ''BlobNotFound'' (Some 404)))\<rparr>)
      ''u1'' ''https://acct.blob.core.windows.net/files/images/u1/a.png'' initial_world
    = (if statusCode (JsError ''RestError'' ''BlobNotFound'' (Some 404)) = Some 404 then Inr ()
       else Inl (JsError ''RestError'' ''BlobNotFound'' (Some 404)),
       example_world\<lparr>trace := trace example_world @
         [Delete \<lparr>containerOf = \<lparr>serviceClient = example_service, container = ''files''\<rparr>,
                  blobName = ''images/u1/a.png''\<rparr>]\<rparr>)"
    using th [of "example_env\<lparr>blobDelete := (\<lambda>b. Some (JsError ''RestError'' ''BlobNotFound'' (Some 404)))\<rparr>"]
      i x c d example_included by blast
  moreover have "deleteFileFromAzureBlobPrivate
      (example_env\<lparr>blobDelete := (\<lambda>b. Some (JsError ''RestError'' ''ServerBusy'' (Some 503)))\<rparr>)
      ''u1'' ''https://acct.blob.core.windows.net/files/images/u1/a.png'' initial_world
    = (if statusCode (JsError ''RestError'' ''ServerBusy'' (Some 503)) = Some 404 then Inr ()
       else Inl (JsError ''RestError'' ''ServerBusy'' (Some 503)),
       example_world\<lparr>trace := trace example_world @
         [Delete \<lparr>containerOf = \<lparr>serviceClient = example_service, container = ''files''\<rparr>,
                  blobName = ''images/u1/a.png''\<rparr>]\<rparr>)"
    using th [of "example_env\<lparr>blobDelete := (\<lambda>b. Some (JsError ''RestError'' ''ServerBusy'' (Some 503)))\<rparr>"]
      i x c d example_included by blast
  moreover have "deleteFileFromAzureBlobPrivate_wi
      (example_env\<lparr>blobDelete := (\<lambda>b. Some (JsError ''RestError'' ''BlobNotFound'' (Some 404)))\<rparr>)
      ''u1'' ''https://acct.blob.core.windows.net/files/images/u1/a.png'' initial_world
    = (if statusCode (JsError ''RestError'' ''BlobNotFound'' (Some 404)) = Some 404 then Inr ()
       else Inl (JsError ''RestError'' ''BlobNotFound'' (Some 404)),
       example_world_wi\<lparr>trace := trace example_world_wi @
         [Delete \<lparr>containerOf = the (containerClient example_world_wi),
                  blobName = ''images/u1/a.png''\<rparr>]\<rparr>)"
    using th [of "example_env\<lparr>blobDelete := (\<lambda>b. Some (JsError ''RestError'' ''BlobNotFound'' (Some 404)))\<rparr>"]
      example_init_wi x cw d example_included by blast
  ultimately show ?thesis
    by (simp add: t tw)
qed
subsection \<open>What a successful save, resolve or upload has done\<close>

lemma createIfNotExists_InrD:
  "containerClient_createIfNotExists e w = (Inr x, w') \<Longrightarrow>
     \<exists>c. containerClient w = Some c \<and> w' = w\<lparr>trace := trace w @ [CreateIfNotExists c]\<rparr>"
  by (auto simp: containerClient_createIfNotExists_def theContainerClient_def bind_def perform_def
      split: option.splits)

lemma saveBuffer_InrD:
  assumes "saveBufferToAzureBlobPrivate e uid buf fn bp cn w = (Inr u, w')"
  shows "\<exists>s w1 c up. initializeAzureBlobPrivateService e w = (Inr s, w1)
     \<and> containerClient w1 = Some c
     \<and> blobUrl u = \<lparr>containerOf = c,
          blobName = orDefault bp defaultBasePath @ ''/'' @ interpolate uid @ ''/'' @ fn\<rparr>
     \<and> containerName (signedValues (sasQuery u)) = orDefault cn (AZURE_PRIVATE_CONTAINER_NAME e)
     \<and> blobUrl up = blobUrl u
     \<and> containerName (signedValues (sasQuery up)) = orDefault cn (AZURE_PRIVATE_CONTAINER_NAME e)
     \<and> trace w' = trace w1 @ [CreateIfNotExists c, HttpPut up (contentTypeOf e fn) (length buf) buf]"
  using assms unfolding saveBufferToAzureBlobPrivate_def Let_def catch_rethrow
  by (auto dest!: bind_InrD createIfNotExists_InrD
      simp: createSASWriteString_eq uploadBufferToSignedUrl_def perform_def
        getSignedDownloadUrl_eq settled_def orDefault_def split: option.splits)

lemma getURL_InrD:
  assumes "getAzureBlobPrivateURL e fn bp uid cn w = (Inr v, w')"
  shows "\<exists>s w1 c. initializeAzureBlobPrivateService e w = (Inr s, w1)
     \<and> containerClient w1 = Some c
     \<and> blobUrl v = \<lparr>containerOf = c,
          blobName = (if truthy uid
                      then orDefault bp defaultBasePath @ ''/'' @ interpolate uid @ ''/'' @ fn
                      else orDefault bp defaultBasePath @ ''/'' @ fn)\<rparr>
     \<and> containerName (signedValues (sasQuery v)) = orDefault cn (AZURE_PRIVATE_CONTAINER_NAME e)
     \<and> trace w' = trace w1"
  using assms unfolding getAzureBlobPrivateURL_def Let_def catch_rethrow
  by (auto dest!: bind_InrD simp: getSignedDownloadUrl_eq split: option.splits if_splits)

lemma uploadFile_InrD:
  assumes "uploadFileToAzureBlobPrivate e uid path fid bp cn w = (Inr r, w')"
  shows "\<exists>s w1 c up body ct. initializeAzureBlobPrivateService e w = (Inr s, w1)
     \<and> containerClient w1 = Some c
     \<and> statSize e path = Inr (bytes r)
     \<and> blobUrl (filepath r) = \<lparr>containerOf = c,
          blobName = orDefault bp defaultBasePath @ ''/'' @ uid @ ''/'' @ fid @ ''__'' @ basename path\<rparr>
     \<and> containerName (signedValues (sasQuery (filepath r)))
          = orDefault cn (AZURE_PRIVATE_CONTAINER_NAME e)
     \<and> blobUrl up = blobUrl (filepath r)
     \<and> containerName (signedValues (sasQuery up)) = orDefault cn (AZURE_PRIVATE_CONTAINER_NAME e)
     \<and> trace w' = trace w1 @ [Stat path, CreateIfNotExists c, Stat path, ReadFile path,
                                HttpPut up ct (bytes r) body]"
  using assms unfolding uploadFileToAzureBlobPrivate_def Let_def catch_rethrow
  by (auto dest!: bind_InrD createIfNotExists_InrD
      simp: createSASWriteString_eq uploadFileToSignedUrl_def perform_def ret_def
        getSignedDownloadUrl_eq settled_def split: option.splits)


lemma saveBuffer_wi_InrD:
  assumes "saveBufferToAzureBlobPrivate_wi e uid buf fn bp cn w = (Inr url, w')"
  shows "\<exists>s w1 c. initializeAzureBlobPrivateService_wi e w = (Inr s, w1)
     \<and> containerClient w1 = Some c
     \<and> url = getDirectBlobUrl e
               (orDefault bp defaultBasePath @ ''/'' @ interpolate uid @ ''/'' @ fn)
               (orDefault cn (AZURE_PRIVATE_CONTAINER_NAME e))
     \<and> trace w' = trace w1 @ [CreateIfNotExists c,
          Upload \<lparr>containerOf = c,
                  blobName = orDefault bp defaultBasePath @ ''/'' @ interpolate uid @ ''/'' @ fn\<rparr>
            buf (length buf) (contentTypeOf e fn)]"
  using assms unfolding saveBufferToAzureBlobPrivate_wi_def Let_def catch_rethrow
  by (auto dest!: bind_InrD createIfNotExists_InrD
      simp: uploadBufferDirectly_def getBlockBlobClient_eq perform_def ret_def settled_def
        orDefault_def split: option.splits)

lemma getURL_wi_InrD:
  assumes "getAzureBlobPrivateURL_wi e fn bp uid cn w = (Inr url, w')"
  shows "\<exists>s. initializeAzureBlobPrivateService_wi e w = (Inr s, w')
     \<and> url = getDirectBlobUrl e
               (if truthy uid
                then orDefault bp defaultBasePath @ ''/'' @ interpolate uid @ ''/'' @ fn
                else orDefault bp defaultBasePath @ ''/'' @ fn)
               (orDefault cn (AZURE_PRIVATE_CONTAINER_NAME e))"
  using assms unfolding getAzureBlobPrivateURL_wi_def Let_def catch_rethrow
  by (auto dest!: bind_InrD simp: ret_def split: option.splits if_splits)


text \<open>
  Claim C1, amended. For every \<open>userId\<close> that is present and not the empty string, and
  every file name and base path, a successful save and a successful resolve address the
  same blob path; in the identity-based backend, where the result is the URL itself, the
  two URLs are the same string.
\<close>

theorem blob_path_agrees_when_userId_present:
  assumes "truthy userId"
  shows "(\<forall>u w1 v w2.
            saveBufferToAzureBlobPrivate e userId buf fileName basePath cn w = (Inr u, w1)
            \<and> getAzureBlobPrivateURL e fileName basePath userId cn' w' = (Inr v, w2)
            \<longrightarrow> blobName (blobUrl u) = blobName (blobUrl v))
     \<and> (\<forall>u w1 v w2.
            saveBufferToAzureBlobPrivate_wi e userId buf fileName basePath cn w = (Inr u, w1)
            \<and> getAzureBlobPrivateURL_wi e fileName basePath userId cn w' = (Inr v, w2)
            \<longrightarrow> u = v)"
proof -
  have "blobName (blobUrl u) = blobName (blobUrl v)"
    if "saveBufferToAzureBlobPrivate e userId buf fileName basePath cn w = (Inr u, w1)"
      "getAzureBlobPrivateURL e fileName basePath userId cn' w' = (Inr v, w2)" for u w1 v w2
    using saveBuffer_InrD [OF that(1)] getURL_InrD [OF that(2)] assms by auto
  moreover have "u = v"
    if "saveBufferToAzureBlobPrivate_wi e userId buf fileName basePath cn w = (Inr u, w1)"
      "getAzureBlobPrivateURL_wi e fileName basePath userId cn w' = (Inr v, w2)" for u w1 v w2
    using saveBuffer_wi_InrD [OF that(1)] getURL_wi_InrD [OF that(2)] assms by auto
  ultimately show ?thesis
    by blast
qed

lemmas run_defs =
  saveBufferToAzureBlobPrivate_def getAzureBlobPrivateURL_def
  saveBufferToAzureBlobPrivate_wi_def getAzureBlobPrivateURL_wi_def
  uploadFileToAzureBlobPrivate_def uploadFileToAzureBlobPrivate_wi_def
  saveURLToAzureBlobPrivate_def saveURLToAzureBlobPrivate_wi_def
  initializeAzureBlobPrivateService_def initializeAzureBlobPrivateService_wi_def
  containerClient_createIfNotExists_def theContainerClient_def
  uploadBufferToSignedUrl_def uploadFileToSignedUrl_def uploadBufferDirectly_def
  uploadFileDirectly_def getDirectBlobUrl_def contentTypeOf_def
  createSASWriteString_eq getSignedDownloadUrl_eq getBlockBlobClient_eq
  catch_rethrow bind_def ret_def perform_def settled_def
  truthy_def interpolate_def orDefault_def defaultBasePath_def
  AZURE_PRIVATE_CONTAINER_NAME_def getContainerClient_def Let_def
  example_env_def initial_world_def

text \<open>
  Claim C1 as stated, for every \<open>userId\<close>, fails when \<open>userId\<close> is absent or empty: the
  save interpolates it (\<open>images/undefined/a.png\<close>, \<open>images//a.png\<close>) while the resolve
  leaves the segment out (\<open>images/a.png\<close>).
\<close>

theorem blob_path_differs_counterexample:
  "addressedBlob (saveBufferToAzureBlobPrivate example_env None [1, 2, 3] ''a.png'' None None
      initial_world) = Inr ''images/undefined/a.png''
   \<and> addressedBlob (getAzureBlobPrivateURL example_env ''a.png'' None None None initial_world)
       = Inr ''images/a.png''
   \<and> addressedBlob (saveBufferToAzureBlobPrivate example_env (Some []) [1, 2, 3] ''a.png'' None
      None initial_world) = Inr ''images//a.png''
   \<and> addressedBlob (getAzureBlobPrivateURL example_env ''a.png'' None (Some []) None
      initial_world) = Inr ''images/a.png''
   \<and> fst (saveBufferToAzureBlobPrivate_wi example_env None [1, 2, 3] ''a.png'' None None
      initial_world) = Inr ''https://acct.blob.core.windows.net/files/images/undefined/a.png''
   \<and> fst (getAzureBlobPrivateURL_wi example_env ''a.png'' None None None initial_world)
       = Inr ''https://acct.blob.core.windows.net/files/images/a.png''"
  by (simp add: addressedBlob_def run_defs)

theorem blob_path_agrees_when_userId_present_witness:
  "truthy (Some ''u1'')
   \<and> addressedBlob (saveBufferToAzureBlobPrivate example_env (Some ''u1'') [1, 2, 3] ''a.png''
        None None initial_world)
     = addressedBlob (getAzureBlobPrivateURL example_env ''a.png'' None (Some ''u1'') None
        initial_world)
   \<and> addressedBlob (getAzureBlobPrivateURL example_env ''a.png'' None (Some ''u1'') None
        initial_world) = Inr ''images/u1/a.png''
   \<and> fst (saveBufferToAzureBlobPrivate_wi example_env (Some ''u1'') [1, 2, 3] ''a.png''
        None None initial_world)
     = fst (getAzureBlobPrivateURL_wi example_env ''a.png'' None (Some ''u1'') None initial_world)
   \<and> fst (getAzureBlobPrivateURL_wi example_env ''a.png'' None (Some ''u1'') None initial_world)
     = Inr ''https://acct.blob.core.windows.net/files/images/u1/a.png''"
proof -
  have t: "truthy (Some ''u1'')"
    by (simp add: truthy_def)
  note th = blob_path_agrees_when_userId_present [OF t, of example_env "[1, 2, 3]" "''a.png''"
      None None initial_world None initial_world]
  have "\<exists>u w1. saveBufferToAzureBlobPrivate example_env (Some ''u1'') [1, 2, 3] ''a.png''
        None None initial_world = (Inr u, w1)"
    by (simp add: run_defs)
  then obtain u w1 where a: "saveBufferToAzureBlobPrivate example_env (Some ''u1'') [1, 2, 3]
        ''a.png'' None None initial_world = (Inr u, w1)"
    by blast
  have "\<exists>v w2. getAzureBlobPrivateURL example_env ''a.png'' None (Some ''u1'') None
        initial_world = (Inr v, w2) \<and> blobName (blobUrl v) = ''images/u1/a.png''"
    by (simp add: run_defs)
  then obtain v w2 where b: "getAzureBlobPrivateURL example_env ''a.png'' None (Some ''u1'') None
        initial_world = (Inr v, w2)" and n: "blobName (blobUrl v) = ''images/u1/a.png''"
    by blast
  from th a b have "blobName (blobUrl u) = blobName (blobUrl v)"
    by blast
  with a b n have signed:
    "addressedBlob (saveBufferToAzureBlobPrivate example_env (Some ''u1'') [1, 2, 3] ''a.png''
        None None initial_world)
     = addressedBlob (getAzureBlobPrivateURL example_env ''a.png'' None (Some ''u1'') None
        initial_world)
   \<and> addressedBlob (getAzureBlobPrivateURL example_env ''a.png'' None (Some ''u1'') None
        initial_world) = Inr ''images/u1/a.png''"
    by (simp add: addressedBlob_def)
  have "\<exists>x w3. saveBufferToAzureBlobPrivate_wi example_env (Some ''u1'') [1, 2, 3] ''a.png''
        None None initial_world = (Inr x, w3)"
    by (simp add: run_defs)
  then obtain x w3 where c: "saveBufferToAzureBlobPrivate_wi example_env (Some ''u1'') [1, 2, 3]
        ''a.png'' None None initial_world = (Inr x, w3)"
    by blast
  have "\<exists>y w4. getAzureBlobPrivateURL_wi example_env ''a.png'' None (Some ''u1'') None
        initial_world = (Inr y, w4)
      \<and> y = ''https://acct.blob.core.windows.net/files/images/u1/a.png''"
    by (simp add: run_defs)
  then obtain y w4 where d: "getAzureBlobPrivateURL_wi example_env ''a.png'' None (Some ''u1'')
        None initial_world = (Inr y, w4)"
    and m: "y = ''https://acct.blob.core.windows.net/files/images/u1/a.png''"
    by blast
  from th c d have "x = y"
    by blast
  with c d m have identity:
    "fst (saveBufferToAzureBlobPrivate_wi example_env (Some ''u1'') [1, 2, 3] ''a.png''
        None None initial_world)
     = fst (getAzureBlobPrivateURL_wi example_env ''a.png'' None (Some ''u1'') None initial_world)
   \<and> fst (getAzureBlobPrivateURL_wi example_env ''a.png'' None (Some ''u1'') None initial_world)
     = Inr ''https://acct.blob.core.windows.net/files/images/u1/a.png''"
    by simp
  from t signed identity show ?thesis
    by blast
qed
subsection \<open>Upload from a local file\<close>

lemma basename_dir_name:
  assumes "CHR ''/'' \<notin> set name" and "name \<noteq> []"
  shows "basename (dir @ ''/'' @ name) = name"
proof -
  have "dropWhile (\<lambda>c. c = CHR ''/'') (rev name @ CHR ''/'' # rev dir)
          = rev name @ CHR ''/'' # rev dir"
    using assms by (cases "rev name") auto
  moreover have "takeWhile (\<lambda>c. c \<noteq> CHR ''/'') (rev name @ CHR ''/'' # rev dir) = rev name"
    using assms by (subst takeWhile_append2) auto
  ultimately show ?thesis
    by (simp add: basename_def)
qed


subsection \<open>The container override\<close>

lemma singletons_ok_initial: "singletons_ok e initial_world"
  by (simp add: singletons_ok_def initial_world_def)

lemma singletons_ok_init:
  "singletons_ok e w \<Longrightarrow> singletons_ok e (snd (initializeAzureBlobPrivateService e w))"
  by (auto simp: singletons_ok_def initializeAzureBlobPrivateService_def Let_def
      split: option.splits)

lemma singletons_ok_init_wi:
  "singletons_ok e w \<Longrightarrow> singletons_ok e (snd (initializeAzureBlobPrivateService_wi e w))"
  by (auto simp: singletons_ok_def initializeAzureBlobPrivateService_wi_def Let_def
      split: option.splits)

text \<open>
  Claim C10. In the signed-URL backend a \<open>containerName\<close> argument \<open>cn\<close> does not change
  the container addressed: after a successful save, resolve or upload the returned URL and
  the URL uploaded to address a blob of the configured container, while the container name
  that was signed is \<open>cn\<close>. For \<open>cn\<close> other than the configured name the two differ.
\<close>

theorem container_override_only_in_signature:
  assumes "singletons_ok e w"
  shows "(\<forall>u w'. saveBufferToAzureBlobPrivate e uid buf fn bp (Some cn) w = (Inr u, w') \<longrightarrow>
        container (containerOf (blobUrl u)) = AZURE_PRIVATE_CONTAINER_NAME e
      \<and> containerName (signedValues (sasQuery u)) = cn
      \<and> (\<exists>c up ct. trace w' = trace w @ [CreateIfNotExists c, HttpPut up ct (length buf) buf]
            \<and> container c = AZURE_PRIVATE_CONTAINER_NAME e
            \<and> container (containerOf (blobUrl up)) = AZURE_PRIVATE_CONTAINER_NAME e
            \<and> containerName (signedValues (sasQuery up)) = cn))
    \<and> (\<forall>v w'. getAzureBlobPrivateURL e fn bp uid (Some cn) w = (Inr v, w') \<longrightarrow>
        container (containerOf (blobUrl v)) = AZURE_PRIVATE_CONTAINER_NAME e
      \<and> containerName (signedValues (sasQuery v)) = cn)
    \<and> (\<forall>r w'. uploadFileToAzureBlobPrivate e user_id path file_id bp (Some cn) w = (Inr r, w') \<longrightarrow>
        container (containerOf (blobUrl (filepath r))) = AZURE_PRIVATE_CONTAINER_NAME e
      \<and> containerName (signedValues (sasQuery (filepath r))) = cn
      \<and> (\<exists>c up ct body. trace w' = trace w @ [Stat path, CreateIfNotExists c, Stat path,
                                                 ReadFile path, HttpPut up ct (bytes r) body]
            \<and> container c = AZURE_PRIVATE_CONTAINER_NAME e
            \<and> container (containerOf (blobUrl up)) = AZURE_PRIVATE_CONTAINER_NAME e
            \<and> containerName (signedValues (sasQuery up)) = cn))"
proof -
  have i: "containerClient w1 = Some c \<Longrightarrow> container c = AZURE_PRIVATE_CONTAINER_NAME e \<and> trace w1 = trace w"
    if "initializeAzureBlobPrivateService e w = (Inr s, w1)" for s w1 c
    using init_cases [OF that] assms by (auto simp: getContainerClient_def)
  have "container (containerOf (blobUrl u)) = AZURE_PRIVATE_CONTAINER_NAME e
      \<and> containerName (signedValues (sasQuery u)) = cn
      \<and> (\<exists>c up ct. trace w' = trace w @ [CreateIfNotExists c, HttpPut up ct (length buf) buf]
            \<and> container c = AZURE_PRIVATE_CONTAINER_NAME e
            \<and> container (containerOf (blobUrl up)) = AZURE_PRIVATE_CONTAINER_NAME e
            \<and> containerName (signedValues (sasQuery up)) = cn)"
    if "saveBufferToAzureBlobPrivate e uid buf fn bp (Some cn) w = (Inr u, w')" for u w'
    using saveBuffer_InrD [OF that] i by (fastforce simp: orDefault_def)
  moreover have "container (containerOf (blobUrl v)) = AZURE_PRIVATE_CONTAINER_NAME e
      \<and> containerName (signedValues (sasQuery v)) = cn"
    if "getAzureBlobPrivateURL e fn bp uid (Some cn) w = (Inr v, w')" for v w'
    using getURL_InrD [OF that] i by (fastforce simp: orDefault_def)
  moreover have "container (containerOf (blobUrl (filepath r))) = AZURE_PRIVATE_CONTAINER_NAME e
      \<and> containerName (signedValues (sasQuery (filepath r))) = cn
      \<and> (\<exists>c up ct body. trace w' = trace w @ [Stat path, CreateIfNotExists c, Stat path,
                                                 ReadFile path, HttpPut up ct (bytes r) body]
            \<and> container c = AZURE_PRIVATE_CONTAINER_NAME e
            \<and> container (containerOf (blobUrl up)) = AZURE_PRIVATE_CONTAINER_NAME e
            \<and> containerName (signedValues (sasQuery up)) = cn)"
    if "uploadFileToAzureBlobPrivate e user_id path file_id bp (Some cn) w = (Inr r, w')" for r w'
    using uploadFile_InrD [OF that] i by (fastforce simp: orDefault_def)
  ultimately show ?thesis
    by blast
qed

theorem container_override_only_in_signature_witness:
  "singletons_ok example_env initial_world
   \<and> (\<exists>u w'. saveBufferToAzureBlobPrivate example_env (Some ''u1'') [1, 2, 3] ''a.png'' None
                (Some ''other'') initial_world = (Inr u, w')
        \<and> container (containerOf (blobUrl u)) = ''files''
        \<and> containerName (signedValues (sasQuery u)) = ''other'')
   \<and> (\<exists>v w'. getAzureBlobPrivateURL example_env ''a.png'' None (Some ''u1'') (Some ''other'')
                initial_world = (Inr v, w')
        \<and> container (containerOf (blobUrl v)) = ''files''
        \<and> containerName (signedValues (sasQuery v)) = ''other'')
   \<and> (\<exists>r w'. uploadFileToAzureBlobPrivate example_env ''u1'' ''/tmp/uploads/photo.jpg'' ''123''
                None (Some ''other'') initial_world = (Inr r, w')
        \<and> container (containerOf (blobUrl (filepath r))) = ''files''
        \<and> containerName (signedValues (sasQuery (filepath r))) = ''other'')"
proof -
  note th = container_override_only_in_signature [OF singletons_ok_initial, of example_env
      "Some ''u1''" "[1, 2, 3]" "''a.png''" None "''other''" "''u1''"
      "''/tmp/uploads/photo.jpg''" "''123''"]
  have n: "AZURE_PRIVATE_CONTAINER_NAME example_env = ''files''"
    by (simp add: AZURE_PRIVATE_CONTAINER_NAME_def example_env_def orDefault_def)
  have "\<exists>u w'. saveBufferToAzureBlobPrivate example_env (Some ''u1'') [1, 2, 3] ''a.png'' None
                (Some ''other'') initial_world = (Inr u, w')"
    by (simp add: run_defs)
  then obtain u w' where h: "saveBufferToAzureBlobPrivate example_env (Some ''u1'') [1, 2, 3]
      ''a.png'' None (Some ''other'') initial_world = (Inr u, w')"
    by blast
  from th h
  have "container (containerOf (blobUrl u)) = AZURE_PRIVATE_CONTAINER_NAME example_env
      \<and> containerName (signedValues (sasQuery u)) = ''other''"
    by blast
  with h n have save: "\<exists>u w'. saveBufferToAzureBlobPrivate example_env (Some ''u1'') [1, 2, 3]
        ''a.png'' None (Some ''other'') initial_world = (Inr u, w')
        \<and> container (containerOf (blobUrl u)) = ''files''
        \<and> containerName (signedValues (sasQuery u)) = ''other''"
    by auto
  have "\<exists>v w'. getAzureBlobPrivateURL example_env ''a.png'' None (Some ''u1'') (Some ''other'')
                initial_world = (Inr v, w')"
    by (simp add: run_defs)
  then obtain v w2 where g: "getAzureBlobPrivateURL example_env ''a.png'' None (Some ''u1'')
      (Some ''other'') initial_world = (Inr v, w2)"
    by blast
  from th g
  have "container (containerOf (blobUrl v)) = AZURE_PRIVATE_CONTAINER_NAME example_env
      \<and> containerName (signedValues (sasQuery v)) = ''other''"
    by blast
  with g n have resolve: "\<exists>v w'. getAzureBlobPrivateURL example_env ''a.png'' None (Some ''u1'')
        (Some ''other'') initial_world = (Inr v, w')
        \<and> container (containerOf (blobUrl v)) = ''files''
        \<and> containerName (signedValues (sasQuery v)) = ''other''"
    by auto
  have "\<exists>r w'. uploadFileToAzureBlobPrivate example_env ''u1'' ''/tmp/uploads/photo.jpg'' ''123''
                None (Some ''other'') initial_world = (Inr r, w')"
    by (simp add: run_defs)
  then obtain r w3 where k: "uploadFileToAzureBlobPrivate example_env ''u1''
      ''/tmp/uploads/photo.jpg'' ''123'' None (Some ''other'') initial_world = (Inr r, w3)"
    by blast
  from th k
  have "container (containerOf (blobUrl (filepath r))) = AZURE_PRIVATE_CONTAINER_NAME example_env
      \<and> containerName (signedValues (sasQuery (filepath r))) = ''other''"
    by blast
  with k n have upload: "\<exists>r w'. uploadFileToAzureBlobPrivate example_env ''u1''
        ''/tmp/uploads/photo.jpg'' ''123'' None (Some ''other'') initial_world = (Inr r, w')
        \<and> container (containerOf (blobUrl (filepath r))) = ''files''
        \<and> containerName (signedValues (sasQuery (filepath r))) = ''other''"
    by auto
  from singletons_ok_initial save resolve upload show ?thesis
    by blast
qed
subsection \<open>Save from a remote URL\<close>

lemma saveURL_eq:
  "saveURLToAzureBlobPrivate e uid URL fn bp cn w =
     (case fetchBuffer e URL of
        Inl err \<Rightarrow> (Inl err, w\<lparr>trace := trace w @ [Fetch URL]\<rparr>)
      | Inr buf \<Rightarrow>
          saveBufferToAzureBlobPrivate e uid buf fn (Some (orDefault bp defaultBasePath))
            (Some (orDefault cn (AZURE_PRIVATE_CONTAINER_NAME e)))
            (w\<lparr>trace := trace w @ [Fetch URL]\<rparr>))"
  by (simp add: saveURLToAzureBlobPrivate_def Let_def catch_rethrow bind_def perform_def
      split: sum.splits)

lemma saveURL_wi_eq:
  "saveURLToAzureBlobPrivate_wi e uid URL fn bp cn w =
     (case fetchBuffer e URL of
        Inl err \<Rightarrow> (Inl err, w\<lparr>trace := trace w @ [Fetch URL]\<rparr>)
      | Inr buf \<Rightarrow>
          saveBufferToAzureBlobPrivate_wi e uid buf fn (Some (orDefault bp defaultBasePath))
            (Some (orDefault cn (AZURE_PRIVATE_CONTAINER_NAME e)))
            (w\<lparr>trace := trace w @ [Fetch URL]\<rparr>))"
  by (simp add: saveURLToAzureBlobPrivate_wi_def Let_def catch_rethrow bind_def perform_def
      split: sum.splits)

lemma extends_ret: "extends (ret x)"
  by (simp add: extends_def ret_def)

lemma extends_throw: "extends (throw err)"
  by (simp add: extends_def throw_def)

lemma extends_perform: "extends (perform ev answer)"
  by (simp add: extends_def perform_def)

lemma extends_new_Date: "extends (new_Date e)"
  by (simp add: extends_def new_Date_def)

lemma extends_theContainerClient: "extends theContainerClient"
  by (simp add: extends_def theContainerClient_def split: option.splits)

lemma extends_bind:
  assumes "extends m" and "\<And>x. extends (f x)"
  shows "extends (bind m f)"
proof -
  have "\<exists>evs. trace (snd (bind m f w)) = trace w @ evs" for w
  proof (cases "m w")
    case (Pair r w1)
    from assms(1) Pair obtain evs1 where 1: "trace w1 = trace w @ evs1"
      by (auto simp: extends_def dest: spec [of _ w])
    show ?thesis
    proof (cases r)
      case (Inl err)
      with Pair 1 show ?thesis by (simp add: bind_def)
    next
      case (Inr x)
      from assms(2) [of x] obtain evs2 where "trace (snd (f x w1)) = trace w1 @ evs2"
        by (auto simp: extends_def dest: spec [of _ w1])
      with Pair Inr 1 show ?thesis by (simp add: bind_def)
    qed
  qed
  then show ?thesis
    by (simp add: extends_def)
qed

lemma extends_init: "extends (initializeAzureBlobPrivateService e)"
  by (simp add: extends_def initializeAzureBlobPrivateService_def Let_def split: option.splits)

lemma extends_init_wi: "extends (initializeAzureBlobPrivateService_wi e)"
  by (simp add: extends_def initializeAzureBlobPrivateService_wi_def Let_def split: option.splits)

lemma extends_saveBuffer: "extends (saveBufferToAzureBlobPrivate e uid buf fn bp cn)"
  unfolding saveBufferToAzureBlobPrivate_def Let_def catch_rethrow
    containerClient_createIfNotExists_def createSASWriteString_def getSignedDownloadUrl_def
    createSASReadString_def uploadBufferToSignedUrl_def getBlockBlobClient_def
  by (intro extends_bind extends_init extends_theContainerClient extends_perform extends_new_Date
      extends_ret)

lemma extends_saveBuffer_wi: "extends (saveBufferToAzureBlobPrivate_wi e uid buf fn bp cn)"
  unfolding saveBufferToAzureBlobPrivate_wi_def Let_def catch_rethrow
    containerClient_createIfNotExists_def uploadBufferDirectly_def getBlockBlobClient_def
  by (intro extends_bind extends_init_wi extends_theContainerClient extends_perform extends_ret)

text \<open>
  Claim C7. When the fetch of the URL fails, \<open>saveURLToAzureBlobPrivate\<close> raises that very
  error, and the fetch is the only call it has made: nothing is uploaded and the module
  state is untouched. In every run the fetch is the first call, before any call of the
  save.
\<close>

theorem saveURL_fetches_before_upload:
  "(\<forall>err. fetchBuffer e URL = Inl err \<longrightarrow>
       saveURLToAzureBlobPrivate e uid URL fn bp cn w
         = (Inl err, w\<lparr>trace := trace w @ [Fetch URL]\<rparr>)
     \<and> saveURLToAzureBlobPrivate_wi e uid URL fn bp cn w
         = (Inl err, w\<lparr>trace := trace w @ [Fetch URL]\<rparr>))
   \<and> (\<exists>evs. trace (snd (saveURLToAzureBlobPrivate e uid URL fn bp cn w))
               = trace w @ Fetch URL # evs)
   \<and> (\<exists>evs. trace (snd (saveURLToAzureBlobPrivate_wi e uid URL fn bp cn w))
               = trace w @ Fetch URL # evs)"
proof -
  have 1: "\<exists>evs. trace (snd (saveURLToAzureBlobPrivate e uid URL fn bp cn w))
               = trace w @ Fetch URL # evs"
  proof (cases "fetchBuffer e URL")
    case (Inl err)
    then show ?thesis by (simp add: saveURL_eq)
  next
    case (Inr buf)
    from extends_saveBuffer [of e uid buf fn "Some (orDefault bp defaultBasePath)"
        "Some (orDefault cn (AZURE_PRIVATE_CONTAINER_NAME e))"]
    obtain evs where "trace (snd (saveBufferToAzureBlobPrivate e uid buf fn
          (Some (orDefault bp defaultBasePath))
          (Some (orDefault cn (AZURE_PRIVATE_CONTAINER_NAME e)))
          (w\<lparr>trace := trace w @ [Fetch URL]\<rparr>)))
        = trace (w\<lparr>trace := trace w @ [Fetch URL]\<rparr>) @ evs"
      unfolding extends_def by blast
    with Inr show ?thesis by (simp add: saveURL_eq)
  qed
  have 2: "\<exists>evs. trace (snd (saveURLToAzureBlobPrivate_wi e uid URL fn bp cn w))
               = trace w @ Fetch URL # evs"
  proof (cases "fetchBuffer e URL")
    case (Inl err)
    then show ?thesis by (simp add: saveURL_wi_eq)
  next
    case (Inr buf)
    from extends_saveBuffer_wi [of e uid buf fn "Some (orDefault bp defaultBasePath)"
        "Some (orDefault cn (AZURE_PRIVATE_CONTAINER_NAME e))"]
    obtain evs where "trace (snd (saveBufferToAzureBlobPrivate_wi e uid buf fn
          (Some (orDefault bp defaultBasePath))
          (Some (orDefault cn (AZURE_PRIVATE_CONTAINER_NAME e)))
          (w\<lparr>trace := trace w @ [Fetch URL]\<rparr>)))
        = trace (w\<lparr>trace := trace w @ [Fetch URL]\<rparr>) @ evs"
      unfolding extends_def by blast
    with Inr show ?thesis by (simp add: saveURL_wi_eq)
  qed
  from 1 2 show ?thesis
    by (simp add: saveURL_eq saveURL_wi_eq)
qed

theorem saveURL_fetches_before_upload_witness:
  "saveURLToAzureBlobPrivate
      (example_env\<lparr>fetchBuffer := (\<lambda>url. Inl (JsError ''FetchError'' ''ECONNREFUSED'' None))\<rparr>)
      (Some ''u1'') ''https://example.org/a.png'' ''a.png'' None None initial_world
    = (Inl (JsError ''FetchError'' ''ECONNREFUSED'' None),
       initial_world\<lparr>trace := [Fetch ''https://example.org/a.png'']\<rparr>)"
proof -
  have f: "fetchBuffer
      (example_env\<lparr>fetchBuffer := (\<lambda>url. Inl (JsError ''FetchError'' ''ECONNREFUSED'' None))\<rparr>)
      ''https://example.org/a.png'' = Inl (JsError ''FetchError'' ''ECONNREFUSED'' None)"
    by simp
  have t: "trace initial_world = []"
    by (simp add: initial_world_def)
  from saveURL_fetches_before_upload [of
      "example_env\<lparr>fetchBuffer := (\<lambda>url. Inl (JsError ''FetchError'' ''ECONNREFUSED'' None))\<rparr>"
      "''https://example.org/a.png''" "Some ''u1''" "''a.png''" None None initial_world] f
  have "saveURLToAzureBlobPrivate
      (example_env\<lparr>fetchBuffer := (\<lambda>url. Inl (JsError ''FetchError'' ''ECONNREFUSED'' None))\<rparr>)
      (Some ''u1'') ''https://example.org/a.png'' ''a.png'' None None initial_world
    = (Inl (JsError ''FetchError'' ''ECONNREFUSED'' None),
       initial_world\<lparr>trace := trace initial_world @ [Fetch ''https://example.org/a.png'']\<rparr>)"
    by blast
  then show ?thesis
    by (simp add: t)
qed

end
